theory Spec2Isabelle
  imports Main "HOL-Library.Multiset"
begin

section \<open>The data-access layer of the IPO tracker (models.py)\<close>

text \<open>
  Every public function of \<^verbatim>\<open>models.py\<close> opens a connection, runs one SQL statement
  against the PostgreSQL schema that \<^verbatim>\<open>init_db\<close> declares, and commits. The embedding
  passes the store explicitly: a function takes the store and returns its result together
  with the store it leaves behind. An exception of the source is the \<open>Inl\<close> of the
  result.

  What the source leaves to its environment is an argument of the model:
  \<^item> \<^verbatim>\<open>CURRENT_TIMESTAMP\<close> is the argument \<open>now\<close> of the inserting functions;
  \<^item> the random salt of \<^verbatim>\<open>bcrypt.gensalt()\<close> is the argument \<open>salt\<close>;
  \<^item> the two bcrypt functions are the fields of a record \<open>bcrypt\<close>; either may raise.
  The connection itself is taken to succeed.

  A value stored in a column is a value of the type of the column: a \<^verbatim>\<open>VARCHAR\<close> or
  \<^verbatim>\<open>TEXT\<close> is a \<open>string\<close> (of one-byte characters), an \<^verbatim>\<open>INTEGER\<close> is an
  \<open>int\<close>, a \<^verbatim>\<open>DECIMAL(10, 2)\<close> is a number of hundredths, a \<^verbatim>\<open>DATE\<close> is a
  day number and a \<^verbatim>\<open>TIMESTAMP\<close> a number of microseconds. Python's \<^verbatim>\<open>None\<close> is
  \<open>None\<close>, and becomes SQL's \<^verbatim>\<open>NULL\<close> when it is bound to a parameter. A value
  bound to a parameter of an \<^verbatim>\<open>INSERT\<close> or an \<^verbatim>\<open>UPDATE\<close> is a Python value that
  the statement has to bring into the type of its column, which can fail; the section on
  parameters below says how.
\<close>

subsection \<open>Rows of the four tables\<close>

type_synonym decimal = int
type_synonym date = int
type_synonym timestamp = int

text \<open>
  A column declared \<^verbatim>\<open>NOT NULL\<close> (or \<^verbatim>\<open>PRIMARY KEY\<close>) holds a value, every other
  column holds an option. The field prefixes are the aliases the source's joins use
  (\<^verbatim>\<open>i\<close>, \<^verbatim>\<open>ow\<close>, \<^verbatim>\<open>pi\<close>), and \<open>u\<close> for \<^verbatim>\<open>Users\<close>.
\<close>

record user =
  u_user_id :: int
  u_username :: string
  u_email :: string
  u_password_hash :: string
  u_first_name :: "string option"
  u_last_name :: "string option"
  u_created_at :: "timestamp option"

record ipo =
  i_ipo_id :: int
  i_name :: string
  i_symbol :: string
  i_company_name :: "string option"
  i_offering_price :: "decimal option"
  i_total_shares :: "int option"
  i_ipo_date :: "date option"
  i_status :: "string option"
  i_description :: "string option"
  i_created_at :: "timestamp option"
  i_updated_at :: "timestamp option"

record watch =
  ow_watchlist_id :: int
  ow_user_id :: int
  ow_ipo_id :: int
  ow_expiry_date :: "date option"

record investment =
  pi_investment_id :: int
  pi_user_id :: int
  pi_ipo_id :: int
  pi_shares_purchased :: int
  pi_purchase_price :: decimal
  pi_sold_date :: "timestamp option"
  pi_status :: "string option"

text \<open>
  The store: the rows of each table in insertion order, and the sequence behind each
  \<^verbatim>\<open>SERIAL\<close> key (the value the next \<^verbatim>\<open>nextval\<close> returns).
\<close>

record db =
  Users :: "user list"
  IPOs :: "ipo list"
  Ongoing_Watchlist :: "watch list"
  Past_Investments :: "investment list"
  Users_seq :: int
  IPOs_seq :: int
  Ongoing_Watchlist_seq :: int
  Past_Investments_seq :: int

subsection \<open>Exceptions\<close>

text \<open>
  The exceptions the source can meet. The first three are the subclasses of
  \<^verbatim>\<open>psycopg2.IntegrityError\<close> that the constraints of the schema raise; an
  \<^verbatim>\<open>except psycopg2.IntegrityError\<close> clause catches each of them.
  \<^verbatim>\<open>psycopg2.DataError\<close> is the class of the errors of a value that does not fit the
  type of its column (\<^verbatim>\<open>StringDataRightTruncation\<close>, \<^verbatim>\<open>NumericValueOutOfRange\<close>);
  it is not an \<^verbatim>\<open>IntegrityError\<close>. \<^verbatim>\<open>ValueError\<close> is raised by psycopg2 for a
  string with a NUL character, and by bcrypt.
\<close>

datatype error =
    UniqueViolation
  | NotNullViolation
  | ForeignKeyViolation
  | DataError
  | ValueError
  | KeyError
  | AttributeError

fun is_IntegrityError :: "error \<Rightarrow> bool" where
  "is_IntegrityError UniqueViolation = True"
| "is_IntegrityError NotNullViolation = True"
| "is_IntegrityError ForeignKeyViolation = True"
| "is_IntegrityError DataError = False"
| "is_IntegrityError ValueError = False"
| "is_IntegrityError KeyError = False"
| "is_IntegrityError AttributeError = False"

subsection \<open>Python values and bcrypt\<close>

text \<open>
  An argument on which the source calls a string method: a \<^verbatim>\<open>str\<close>, \<^verbatim>\<open>None\<close>, or
  a value of another type (an \<^verbatim>\<open>int\<close> stands for those). \<^verbatim>\<open>encode\<close> exists on a
  \<^verbatim>\<open>str\<close> only; elsewhere the attribute lookup raises \<^verbatim>\<open>AttributeError\<close>.
\<close>

datatype pyval = PyNone | PyStr string | PyInt int

fun encode :: "pyval \<Rightarrow> error + string" where
  "encode (PyStr s) = Inr s"
| "encode PyNone = Inl AttributeError"
| "encode (PyInt n) = Inl AttributeError"

text \<open>
  \<^verbatim>\<open>bcrypt.hashpw(password, salt)\<close> and \<^verbatim>\<open>bcrypt.checkpw(password, hashed)\<close>.
  Both can raise: bcrypt 5 refuses a password of more than 72 bytes with a
  \<^verbatim>\<open>ValueError\<close>, and \<^verbatim>\<open>checkpw\<close> refuses a stored value that is not a hash.
\<close>

record bcrypt =
  hashpw :: "string \<Rightarrow> string \<Rightarrow> error + string"
  checkpw :: "string \<Rightarrow> string \<Rightarrow> error + bool"

subsection \<open>Parameters of a statement\<close>

text \<open>
  psycopg2 writes the parameters into the text of the statement before it sends it, and
  refuses a string with a NUL character (\<^verbatim>\<open>ValueError\<close>); nothing has reached the
  store then.
\<close>

definition has_nul :: "string option \<Rightarrow> bool" where
  "has_nul v = (case v of None \<Rightarrow> False | Some s \<Rightarrow> CHR 0x00 \<in> set s)"

text \<open>
  The store brings the value of a listed column into the type of the column when it plans
  the statement, before it runs it: a failure is a \<^verbatim>\<open>DataError\<close>, and neither a row
  nor a sequence has changed.

  \<^verbatim>\<open>VARCHAR(n)\<close>: a string of more than \<open>n\<close> characters is refused, unless the
  characters beyond the \<open>n\<close>-th are all spaces; then they are cut off.
\<close>

definition varchar_fits :: "nat \<Rightarrow> string option \<Rightarrow> bool" where
  "varchar_fits n v =
     (case v of None \<Rightarrow> True
      | Some s \<Rightarrow> length s \<le> n \<or> list_all (\<lambda>c. c = CHR '' '') (drop n s))"

definition varchar :: "nat \<Rightarrow> string option \<Rightarrow> string option" where
  "varchar n v = map_option (take n) v"

text \<open>\<^verbatim>\<open>INTEGER\<close>: a number outside 32 bits is refused.\<close>

definition int4_fits :: "int \<Rightarrow> bool" where
  "int4_fits x = (- 2147483648 \<le> x \<and> x \<le> 2147483647)"

definition int4_fits_opt :: "int option \<Rightarrow> bool" where
  "int4_fits_opt v = (case v of None \<Rightarrow> True | Some x \<Rightarrow> int4_fits x)"

text \<open>
  \<^verbatim>\<open>DECIMAL(10, 2)\<close>. A Python \<^verbatim>\<open>Decimal\<close> (or \<^verbatim>\<open>float\<close>, which psycopg2
  writes as a decimal literal) is \<open>Decimal m s\<close>, the number \<open>m / 10 ^ s\<close>. The
  store rounds it to two decimal places, a tie away from zero, and refuses the result if
  it needs more than ten digits.
\<close>

datatype pydecimal = Decimal int nat

fun round_2 :: "pydecimal \<Rightarrow> decimal" where
  "round_2 (Decimal m s) =
     (if s \<le> 2 then m * 10 ^ (2 - s)
      else (let p = 10 ^ (s - 2); q = \<bar>m\<bar> div p; r = \<bar>m\<bar> mod p
            in sgn m * (if p \<le> 2 * r then q + 1 else q)))"

definition decimal_10_2_fits :: "pydecimal option \<Rightarrow> bool" where
  "decimal_10_2_fits v =
     (case v of None \<Rightarrow> True | Some x \<Rightarrow> \<bar>round_2 x\<bar> < 10 ^ 10)"

definition decimal_10_2 :: "pydecimal option \<Rightarrow> decimal option" where
  "decimal_10_2 v = map_option round_2 v"

text \<open>
  A value a \<^verbatim>\<open>VARCHAR(n)\<close> column stores as it is: null, or a string of at most
  \<open>n\<close> characters without NUL.
\<close>

definition in_varchar :: "nat \<Rightarrow> string option \<Rightarrow> bool" where
  "in_varchar n v =
     (case v of None \<Rightarrow> True | Some s \<Rightarrow> length s \<le> n \<and> CHR 0x00 \<notin> set s)"

subsection \<open>Schema initialisation\<close>

text \<open>
  \<^verbatim>\<open>init_db\<close>: \<^verbatim>\<open>CREATE TABLE IF NOT EXISTS\<close> for the four tables. On a database
  without them (\<open>None\<close>) the tables are created empty with their sequences at 1; on a
  database that has them nothing changes.
\<close>

definition empty_db :: db where
  "empty_db = \<lparr>Users = [], IPOs = [], Ongoing_Watchlist = [], Past_Investments = [],
     Users_seq = 1, IPOs_seq = 1, Ongoing_Watchlist_seq = 1, Past_Investments_seq = 1\<rparr>"

fun init_db :: "db option \<Rightarrow> db" where
  "init_db None = empty_db"
| "init_db (Some d) = d"

subsection \<open>User functions\<close>

text \<open>
  The statement of \<^verbatim>\<open>create_user\<close>:
  \<^verbatim>\<open>INSERT INTO Users (username, email, password_hash, first_name, last_name)
  VALUES (%s, %s, %s, %s, %s) RETURNING user_id\<close>.
  The five listed columns are \<^verbatim>\<open>VARCHAR(255)\<close>. When the statement runs, the key
  comes from the sequence, which advances whether or not the row is accepted (a sequence is
  not rolled back); \<^verbatim>\<open>created_at\<close> is not listed and takes its default. The row is
  rejected when a \<^verbatim>\<open>NOT NULL\<close> column would be null, or when the key, the username
  or the email is already in the table. The result is the outcome of the statement and the
  store with the statement applied (on an error of a constraint: only the sequence has
  moved).
\<close>

definition insert_Users ::
  "db \<Rightarrow> timestamp \<Rightarrow> string option \<Rightarrow> string option \<Rightarrow> string option
     \<Rightarrow> string option \<Rightarrow> string option \<Rightarrow> (error + int) \<times> db" where
  "insert_Users d now username email password_hash first_name last_name =
     (if has_nul username \<or> has_nul email \<or> has_nul password_hash \<or> has_nul first_name
         \<or> has_nul last_name
      then (Inl ValueError, d)
      else if \<not> (varchar_fits 255 username \<and> varchar_fits 255 email
                  \<and> varchar_fits 255 password_hash \<and> varchar_fits 255 first_name
                  \<and> varchar_fits 255 last_name)
      then (Inl DataError, d)
      else
        (let k = Users_seq d;
             d1 = d\<lparr>Users_seq := k + 1\<rparr>
         in case (varchar 255 username, varchar 255 email, varchar 255 password_hash) of
              (Some un, Some em, Some ph) \<Rightarrow>
                if k \<in> set (map u_user_id (Users d))
                   \<or> un \<in> set (map u_username (Users d))
                   \<or> em \<in> set (map u_email (Users d))
                then (Inl UniqueViolation, d1)
                else (Inr k,
                      d1\<lparr>Users := Users d @
                         [\<lparr>u_user_id = k, u_username = un, u_email = em,
                           u_password_hash = ph,
                           u_first_name = varchar 255 first_name,
                           u_last_name = varchar 255 last_name,
                           u_created_at = Some now\<rparr>]\<rparr>)
            | _ \<Rightarrow> (Inl NotNullViolation, d1)))"

text \<open>
  \<^verbatim>\<open>create_user\<close>. The password is hashed before the \<^verbatim>\<open>try\<close>, so a failure of
  \<^verbatim>\<open>password.encode\<close> or of \<^verbatim>\<open>bcrypt.hashpw\<close> leaves the function as it is
  raised. Inside the \<^verbatim>\<open>try\<close>, an \<^verbatim>\<open>IntegrityError\<close> is answered by
  \<^verbatim>\<open>conn.rollback()\<close> and \<^verbatim>\<open>None\<close>; any other exception (a \<^verbatim>\<open>DataError\<close>,
  a \<^verbatim>\<open>ValueError\<close>) leaves the function.
\<close>

definition create_user ::
  "bcrypt \<Rightarrow> string \<Rightarrow> timestamp \<Rightarrow> db \<Rightarrow> string option \<Rightarrow> string option \<Rightarrow> pyval
     \<Rightarrow> string option \<Rightarrow> string option \<Rightarrow> (error + int option) \<times> db" where
  "create_user lib salt now d username email password first_name last_name =
     (case encode password of
        Inl e \<Rightarrow> (Inl e, d)
      | Inr pw \<Rightarrow>
          (case hashpw lib pw salt of
             Inl e \<Rightarrow> (Inl e, d)
           | Inr password_hash \<Rightarrow>
               (case insert_Users d now username email (Some password_hash) first_name
                       last_name of
                  (Inr user_id, d') \<Rightarrow> (Inr (Some user_id), d')
                | (Inl e, d') \<Rightarrow>
                    if is_IntegrityError e then (Inr None, d')
                    else (Inl e, d'))))"

text \<open>
  \<^verbatim>\<open>authenticate_user\<close>: \<^verbatim>\<open>SELECT * FROM Users WHERE username = %s\<close> and
  \<^verbatim>\<open>fetchone()\<close>. A null parameter equals no username, and a parameter longer than the
  column is compared as it is. \<^verbatim>\<open>user and ...\<close> evaluates \<^verbatim>\<open>password.encode\<close> and
  \<^verbatim>\<open>bcrypt.checkpw\<close> only when a row was found.
\<close>

definition select_Users_by_username :: "db \<Rightarrow> string option \<Rightarrow> user option" where
  "select_Users_by_username d username =
     find (\<lambda>u. Some (u_username u) = username) (Users d)"

definition authenticate_user ::
  "bcrypt \<Rightarrow> db \<Rightarrow> string option \<Rightarrow> pyval \<Rightarrow> (error + user option) \<times> db" where
  "authenticate_user lib d username password =
     (if has_nul username then (Inl ValueError, d)
      else
        (case select_Users_by_username d username of
           None \<Rightarrow> (Inr None, d)
         | Some user \<Rightarrow>
             (case encode password of
                Inl e \<Rightarrow> (Inl e, d)
              | Inr pw \<Rightarrow>
                  (case checkpw lib pw (u_password_hash user) of
                     Inl e \<Rightarrow> (Inl e, d)
                   | Inr ok \<Rightarrow> if ok then (Inr (Some user), d) else (Inr None, d)))))"

subsection \<open>IPO functions\<close>

text \<open>
  The argument of \<^verbatim>\<open>store_ipo\<close> is a dict. Each of the eight keys the function reads
  is a field of the record \<open>ipo_data\<close>: \<open>None\<close> when the dict does not have the key,
  \<open>Some v\<close> when it maps the key to \<open>v\<close>, where \<open>v\<close> is \<open>None\<close> for Python's
  \<^verbatim>\<open>None\<close>. The three lookups of the source follow.
\<close>

record ipo_data =
  k_name :: "string option option"
  k_symbol :: "string option option"
  k_company_name :: "string option option"
  k_offering_price :: "pydecimal option option"
  k_total_shares :: "int option option"
  k_ipo_date :: "date option option"
  k_status :: "string option option"
  k_description :: "string option option"

fun subscript :: "'a option option \<Rightarrow> error + 'a option" where
  "subscript None = Inl KeyError"
| "subscript (Some v) = Inr v"

fun get :: "'a option option \<Rightarrow> 'a option" where
  "get None = None"
| "get (Some v) = v"

fun get_default :: "'a option option \<Rightarrow> 'a \<Rightarrow> 'a option" where
  "get_default None dflt = Some dflt"
| "get_default (Some v) dflt = v"

text \<open>
  \<^verbatim>\<open>INSERT INTO IPOs (name, symbol, company_name, offering_price, total_shares,
  ipo_date, status, description) VALUES (...)\<close>. \<^verbatim>\<open>name\<close> and
  \<^verbatim>\<open>company_name\<close> are \<^verbatim>\<open>VARCHAR(255)\<close>, \<^verbatim>\<open>symbol\<close> and \<^verbatim>\<open>status\<close> are
  \<^verbatim>\<open>VARCHAR(20)\<close>, \<^verbatim>\<open>offering_price\<close> is \<^verbatim>\<open>DECIMAL(10, 2)\<close>,
  \<^verbatim>\<open>total_shares\<close> is \<^verbatim>\<open>INTEGER\<close> and \<^verbatim>\<open>description\<close> is \<^verbatim>\<open>TEXT\<close>, which
  has no limit. When the statement runs, the key comes from the sequence,
  \<^verbatim>\<open>created_at\<close> and \<^verbatim>\<open>updated_at\<close> take their default, and every listed column
  takes the value bound to it, a null included.
\<close>

definition insert_IPOs ::
  "db \<Rightarrow> timestamp \<Rightarrow> string option \<Rightarrow> string option \<Rightarrow> string option
     \<Rightarrow> pydecimal option \<Rightarrow> int option \<Rightarrow> date option \<Rightarrow> string option \<Rightarrow> string option
     \<Rightarrow> (error + int) \<times> db" where
  "insert_IPOs d now name symbol company_name offering_price total_shares ipo_date status
       description =
     (if has_nul name \<or> has_nul symbol \<or> has_nul company_name \<or> has_nul status
         \<or> has_nul description
      then (Inl ValueError, d)
      else if \<not> (varchar_fits 255 name \<and> varchar_fits 20 symbol
                  \<and> varchar_fits 255 company_name \<and> decimal_10_2_fits offering_price
                  \<and> int4_fits_opt total_shares \<and> varchar_fits 20 status)
      then (Inl DataError, d)
      else
        (let k = IPOs_seq d;
             d1 = d\<lparr>IPOs_seq := k + 1\<rparr>
         in case (varchar 255 name, varchar 20 symbol) of
              (Some n, Some s) \<Rightarrow>
                if k \<in> set (map i_ipo_id (IPOs d)) then (Inl UniqueViolation, d1)
                else (Inr k,
                      d1\<lparr>IPOs := IPOs d @
                         [\<lparr>i_ipo_id = k, i_name = n, i_symbol = s,
                           i_company_name = varchar 255 company_name,
                           i_offering_price = decimal_10_2 offering_price,
                           i_total_shares = total_shares,
                           i_ipo_date = ipo_date, i_status = varchar 20 status,
                           i_description = description,
                           i_created_at = Some now, i_updated_at = Some now\<rparr>]\<rparr>)
            | _ \<Rightarrow> (Inl NotNullViolation, d1)))"

text \<open>
  \<^verbatim>\<open>store_ipo\<close>. The parameter tuple is built before \<^verbatim>\<open>cursor.execute\<close> is
  called, so a \<^verbatim>\<open>KeyError\<close> of \<^verbatim>\<open>ipo_data['name']\<close> or
  \<^verbatim>\<open>ipo_data['symbol']\<close> is raised before the statement reaches the store. There is
  no \<^verbatim>\<open>try\<close>: an error of the statement leaves the function, and the connection is
  dropped uncommitted.
\<close>

definition store_ipo :: "db \<Rightarrow> timestamp \<Rightarrow> ipo_data \<Rightarrow> (error + bool) \<times> db" where
  "store_ipo d now ipo_data =
     (case subscript (k_name ipo_data) of
        Inl e \<Rightarrow> (Inl e, d)
      | Inr name \<Rightarrow>
          (case subscript (k_symbol ipo_data) of
             Inl e \<Rightarrow> (Inl e, d)
           | Inr symbol \<Rightarrow>
               (case insert_IPOs d now name symbol
                       (get (k_company_name ipo_data))
                       (get (k_offering_price ipo_data))
                       (get (k_total_shares ipo_data))
                       (get (k_ipo_date ipo_data))
                       (get_default (k_status ipo_data) ''upcoming'')
                       (get (k_description ipo_data)) of
                  (Inl e, d') \<Rightarrow> (Inl e, d')
                | (Inr k, d') \<Rightarrow> (Inr True, d'))))"

text \<open>
  \<^verbatim>\<open>get_ipo\<close>: \<^verbatim>\<open>SELECT * FROM IPOs WHERE ipo_id = %s\<close> and \<^verbatim>\<open>fetchone()\<close>.
\<close>

definition get_ipo :: "db \<Rightarrow> int \<Rightarrow> ipo option \<times> db" where
  "get_ipo d ipo_id = (find (\<lambda>i. i_ipo_id i = ipo_id) (IPOs d), d)"


subsection \<open>Watchlist functions\<close>

text \<open>
  \<^verbatim>\<open>INSERT INTO Ongoing_Watchlist (user_id, ipo_id, expiry_date) VALUES (%s, %s, %s)
  RETURNING watchlist_id\<close>. \<^verbatim>\<open>user_id\<close> and \<^verbatim>\<open>ipo_id\<close> are \<^verbatim>\<open>INTEGER\<close>.
  The primary key is checked when the row is written, the two foreign keys at the end of
  the statement.
\<close>

definition insert_Ongoing_Watchlist ::
  "db \<Rightarrow> int \<Rightarrow> int \<Rightarrow> date option \<Rightarrow> (error + int) \<times> db" where
  "insert_Ongoing_Watchlist d user_id ipo_id expiry_date =
     (if \<not> (int4_fits user_id \<and> int4_fits ipo_id) then (Inl DataError, d)
      else
        (let k = Ongoing_Watchlist_seq d;
             d1 = d\<lparr>Ongoing_Watchlist_seq := k + 1\<rparr>
         in if k \<in> set (map ow_watchlist_id (Ongoing_Watchlist d))
            then (Inl UniqueViolation, d1)
            else if user_id \<notin> set (map u_user_id (Users d))
                    \<or> ipo_id \<notin> set (map i_ipo_id (IPOs d))
            then (Inl ForeignKeyViolation, d1)
            else (Inr k,
                  d1\<lparr>Ongoing_Watchlist := Ongoing_Watchlist d @
                     [\<lparr>ow_watchlist_id = k, ow_user_id = user_id, ow_ipo_id = ipo_id,
                       ow_expiry_date = expiry_date\<rparr>]\<rparr>)))"

definition add_to_watchlist ::
  "db \<Rightarrow> int \<Rightarrow> int \<Rightarrow> date option \<Rightarrow> (error + int) \<times> db" where
  "add_to_watchlist d user_id ipo_id expiry_date =
     (case insert_Ongoing_Watchlist d user_id ipo_id expiry_date of
        (Inl e, d') \<Rightarrow> (Inl e, d')
      | (Inr watchlist_id, d') \<Rightarrow> (Inr watchlist_id, d'))"

text \<open>
  \<^verbatim>\<open>remove_from_watchlist\<close>:
  \<^verbatim>\<open>DELETE FROM Ongoing_Watchlist WHERE watchlist_id = %s AND user_id = %s\<close>, then
  \<^verbatim>\<open>return True\<close>. A number in a comparison need not fit the column: outside 32 bits
  it equals no id.
\<close>

definition remove_from_watchlist :: "db \<Rightarrow> int \<Rightarrow> int \<Rightarrow> bool \<times> db" where
  "remove_from_watchlist d watchlist_id user_id =
     (True,
      d\<lparr>Ongoing_Watchlist :=
          filter (\<lambda>ow. \<not> (ow_watchlist_id ow = watchlist_id \<and> ow_user_id ow = user_id))
            (Ongoing_Watchlist d)\<rparr>)"

text \<open>
  \<^verbatim>\<open>ORDER BY\<close>: the rows are sorted by insertion under the comparison of the
  statement. Rows that compare equal keep the order of the scan here; the statement itself
  leaves their order open, and no theorem below depends on it.
\<close>

fun insort_by :: "('a \<Rightarrow> 'a \<Rightarrow> bool) \<Rightarrow> 'a \<Rightarrow> 'a list \<Rightarrow> 'a list" where
  "insort_by le x [] = [x]"
| "insort_by le x (y # ys) = (if le x y then x # y # ys else y # insort_by le x ys)"

definition order_by :: "('a \<Rightarrow> 'a \<Rightarrow> bool) \<Rightarrow> 'a list \<Rightarrow> 'a list" where
  "order_by le xs = foldr (insort_by le) xs []"

text \<open>\<^verbatim>\<open>ASC\<close> puts the smaller value first and nulls last.\<close>

fun asc :: "int option \<Rightarrow> int option \<Rightarrow> bool" where
  "asc _ None = True"
| "asc None (Some y) = False"
| "asc (Some x) (Some y) = (x \<le> y)"

text \<open>\<^verbatim>\<open>DESC\<close> puts nulls first and then the larger value.\<close>

fun desc :: "int option \<Rightarrow> int option \<Rightarrow> bool" where
  "desc None _ = True"
| "desc (Some x) None = False"
| "desc (Some x) (Some y) = (y \<le> x)"

text \<open>
  \<^verbatim>\<open>get_user_watchlist\<close>:
  \<^verbatim>\<open>SELECT ow.watchlist_id, ow.expiry_date, i.* FROM Ongoing_Watchlist AS ow
  JOIN IPOs AS i ON ow.ipo_id = i.ipo_id WHERE ow.user_id = %s ORDER BY i.ipo_date ASC\<close>.
  A row of the result has the two watchlist columns and the columns of the IPO.
\<close>

record watchlist_row =
  wl_watchlist_id :: int
  wl_expiry_date :: "date option"
  wl_ipo :: ipo

definition join_Ongoing_Watchlist_IPOs :: "db \<Rightarrow> int \<Rightarrow> watchlist_row list" where
  "join_Ongoing_Watchlist_IPOs d user_id =
     concat (map (\<lambda>ow. map (\<lambda>i. \<lparr>wl_watchlist_id = ow_watchlist_id ow,
                                  wl_expiry_date = ow_expiry_date ow, wl_ipo = i\<rparr>)
                          (filter (\<lambda>i. ow_ipo_id ow = i_ipo_id i) (IPOs d)))
                 (filter (\<lambda>ow. ow_user_id ow = user_id) (Ongoing_Watchlist d)))"

definition get_user_watchlist :: "db \<Rightarrow> int \<Rightarrow> watchlist_row list \<times> db" where
  "get_user_watchlist d user_id =
     (order_by (\<lambda>a b. asc (i_ipo_date (wl_ipo a)) (i_ipo_date (wl_ipo b)))
        (join_Ongoing_Watchlist_IPOs d user_id),
      d)"

subsection \<open>Investment functions\<close>

text \<open>
  \<^verbatim>\<open>INSERT INTO Past_Investments (user_id, ipo_id, shares_purchased, purchase_price,
  sold_date, status) VALUES (%s, %s, %s, %s, %s, %s) RETURNING investment_id\<close>. Every
  column but the key is listed, so every column but the key takes the value bound to it.
  \<^verbatim>\<open>user_id\<close>, \<^verbatim>\<open>ipo_id\<close> and \<^verbatim>\<open>shares_purchased\<close> are \<^verbatim>\<open>INTEGER\<close>,
  \<^verbatim>\<open>status\<close> is \<^verbatim>\<open>VARCHAR(20)\<close>, and \<^verbatim>\<open>purchase_price\<close> is
  \<^verbatim>\<open>DECIMAL(10, 2)\<close>. The price is an argument in hundredths here: a price with
  more decimal places, which the store would round, is not among the arguments.
\<close>

definition insert_Past_Investments ::
  "db \<Rightarrow> int \<Rightarrow> int \<Rightarrow> int \<Rightarrow> decimal \<Rightarrow> timestamp option \<Rightarrow> string option
     \<Rightarrow> (error + int) \<times> db" where
  "insert_Past_Investments d user_id ipo_id shares_purchased purchase_price sold_date status =
     (if has_nul status then (Inl ValueError, d)
      else if \<not> (int4_fits user_id \<and> int4_fits ipo_id \<and> int4_fits shares_purchased
                  \<and> decimal_10_2_fits (Some (Decimal purchase_price 2))
                  \<and> varchar_fits 20 status)
      then (Inl DataError, d)
      else
        (let k = Past_Investments_seq d;
             d1 = d\<lparr>Past_Investments_seq := k + 1\<rparr>
         in if k \<in> set (map pi_investment_id (Past_Investments d))
            then (Inl UniqueViolation, d1)
            else if user_id \<notin> set (map u_user_id (Users d))
                    \<or> ipo_id \<notin> set (map i_ipo_id (IPOs d))
            then (Inl ForeignKeyViolation, d1)
            else (Inr k,
                  d1\<lparr>Past_Investments := Past_Investments d @
                     [\<lparr>pi_investment_id = k, pi_user_id = user_id, pi_ipo_id = ipo_id,
                       pi_shares_purchased = shares_purchased,
                       pi_purchase_price = purchase_price,
                       pi_sold_date = sold_date, pi_status = varchar 20 status\<rparr>]\<rparr>)))"

text \<open>
  \<^verbatim>\<open>add_investment(user_id, ipo_id, shares_purchased, purchase_price, sold_date=None,
  status='pending')\<close>. The function with all six arguments, and the call that omits the
  last two, which Python fills with the defaults of the signature.
\<close>

definition add_investment ::
  "db \<Rightarrow> int \<Rightarrow> int \<Rightarrow> int \<Rightarrow> decimal \<Rightarrow> timestamp option \<Rightarrow> string option
     \<Rightarrow> (error + int) \<times> db" where
  "add_investment d user_id ipo_id shares_purchased purchase_price sold_date status =
     (case insert_Past_Investments d user_id ipo_id shares_purchased purchase_price
             sold_date status of
        (Inl e, d') \<Rightarrow> (Inl e, d')
      | (Inr investment_id, d') \<Rightarrow> (Inr investment_id, d'))"

definition add_investment_omitted ::
  "db \<Rightarrow> int \<Rightarrow> int \<Rightarrow> int \<Rightarrow> decimal \<Rightarrow> (error + int) \<times> db" where
  "add_investment_omitted d user_id ipo_id shares_purchased purchase_price =
     add_investment d user_id ipo_id shares_purchased purchase_price None (Some ''pending'')"

text \<open>
  \<^verbatim>\<open>update_investment_status\<close>. \<^verbatim>\<open>if sold_date:\<close> tests the truth value of the
  argument: \<^verbatim>\<open>None\<close> is false, a \<^verbatim>\<open>datetime\<close> is true. The new status is brought
  into \<^verbatim>\<open>VARCHAR(20)\<close> when the statement is planned, so a status that does not fit is
  an error whether or not a row matches.
\<close>

definition update_investment_status ::
  "db \<Rightarrow> int \<Rightarrow> int \<Rightarrow> string option \<Rightarrow> timestamp option \<Rightarrow> (error + bool) \<times> db" where
  "update_investment_status d investment_id user_id status sold_date =
     (if has_nul status then (Inl ValueError, d)
      else if \<not> varchar_fits 20 status then (Inl DataError, d)
      else
        (case sold_date of
           Some sd \<Rightarrow>
             (Inr True,
              d\<lparr>Past_Investments :=
                  map (\<lambda>r. if pi_investment_id r = investment_id \<and> pi_user_id r = user_id
                           then r\<lparr>pi_status := varchar 20 status, pi_sold_date := Some sd\<rparr>
                           else r)
                    (Past_Investments d)\<rparr>)
         | None \<Rightarrow>
             (Inr True,
              d\<lparr>Past_Investments :=
                  map (\<lambda>r. if pi_investment_id r = investment_id \<and> pi_user_id r = user_id
                           then r\<lparr>pi_status := varchar 20 status\<rparr> else r)
                    (Past_Investments d)\<rparr>)))"

text \<open>
  \<^verbatim>\<open>get_user_investments\<close>:
  \<^verbatim>\<open>SELECT pi.*, i.name AS ipo_name, i.symbol, i.ipo_date FROM Past_Investments AS pi
  JOIN IPOs AS i ON pi.ipo_id = i.ipo_id WHERE pi.user_id = %s ORDER BY pi.sold_date DESC\<close>.
\<close>

record investment_row =
  ir_investment :: investment
  ir_ipo_name :: string
  ir_symbol :: string
  ir_ipo_date :: "date option"

definition join_Past_Investments_IPOs :: "db \<Rightarrow> int \<Rightarrow> investment_row list" where
  "join_Past_Investments_IPOs d user_id =
     concat (map (\<lambda>r. map (\<lambda>i. \<lparr>ir_investment = r, ir_ipo_name = i_name i,
                                 ir_symbol = i_symbol i, ir_ipo_date = i_ipo_date i\<rparr>)
                         (filter (\<lambda>i. pi_ipo_id r = i_ipo_id i) (IPOs d)))
                 (filter (\<lambda>r. pi_user_id r = user_id) (Past_Investments d)))"

definition get_user_investments :: "db \<Rightarrow> int \<Rightarrow> investment_row list \<times> db" where
  "get_user_investments d user_id =
     (order_by (\<lambda>a b. desc (pi_sold_date (ir_investment a)) (pi_sold_date (ir_investment b)))
        (join_Past_Investments_IPOs d user_id),
      d)"

subsection \<open>Sequences of calls\<close>

text \<open>
  A call of one of the public functions with its arguments (and, for an insert, what the
  environment supplies to it), the store a call leaves behind, and the store a sequence of
  calls leaves behind. \<^verbatim>\<open>init_db\<close> is called here on a database that has its tables.
\<close>

datatype op =
    Init_db
  | Create_user string timestamp "string option" "string option" pyval
      "string option" "string option"
  | Authenticate_user "string option" pyval
  | Store_ipo timestamp ipo_data
  | Get_ipo int
  | Add_to_watchlist int int "date option"
  | Remove_from_watchlist int int
  | Get_user_watchlist int
  | Add_investment int int int decimal "timestamp option" "string option"
  | Update_investment_status int int "string option" "timestamp option"
  | Get_user_investments int

fun call :: "bcrypt \<Rightarrow> op \<Rightarrow> db \<Rightarrow> db" where
  "call lib Init_db d = init_db (Some d)"
| "call lib (Create_user salt now username email password first_name last_name) d =
     snd (create_user lib salt now d username email password first_name last_name)"
| "call lib (Authenticate_user username password) d =
     snd (authenticate_user lib d username password)"
| "call lib (Store_ipo now ipo_data) d = snd (store_ipo d now ipo_data)"
| "call lib (Get_ipo ipo_id) d = snd (get_ipo d ipo_id)"
| "call lib (Add_to_watchlist user_id ipo_id expiry_date) d =
     snd (add_to_watchlist d user_id ipo_id expiry_date)"
| "call lib (Remove_from_watchlist watchlist_id user_id) d =
     snd (remove_from_watchlist d watchlist_id user_id)"
| "call lib (Get_user_watchlist user_id) d = snd (get_user_watchlist d user_id)"
| "call lib (Add_investment user_id ipo_id shares_purchased purchase_price sold_date status) d =
     snd (add_investment d user_id ipo_id shares_purchased purchase_price sold_date status)"
| "call lib (Update_investment_status investment_id user_id status sold_date) d =
     snd (update_investment_status d investment_id user_id status sold_date)"
| "call lib (Get_user_investments user_id) d = snd (get_user_investments d user_id)"

definition calls :: "bcrypt \<Rightarrow> op list \<Rightarrow> db \<Rightarrow> db" where
  "calls lib ops d = fold (call lib) ops d"

subsection \<open>The constraints of the schema as an invariant of the store\<close>

text \<open>
  What the declarations of \<^verbatim>\<open>init_db\<close> make the store keep: primary keys are distinct
  and were handed out by their sequence, usernames and emails are distinct, and the two
  foreign keys of a watchlist row and of an investment row name rows that exist. A theorem
  about a store of the layer is about every store with these properties.
\<close>

definition db_inv :: "db \<Rightarrow> bool" where
  "db_inv d =
     (distinct (map u_user_id (Users d))
      \<and> list_all (\<lambda>u. u_user_id u < Users_seq d) (Users d)
      \<and> distinct (map u_username (Users d))
      \<and> distinct (map u_email (Users d))
      \<and> distinct (map i_ipo_id (IPOs d))
      \<and> list_all (\<lambda>i. i_ipo_id i < IPOs_seq d) (IPOs d)
      \<and> distinct (map ow_watchlist_id (Ongoing_Watchlist d))
      \<and> list_all (\<lambda>ow. ow_watchlist_id ow < Ongoing_Watchlist_seq d
                        \<and> ow_user_id ow \<in> set (map u_user_id (Users d))
                        \<and> ow_ipo_id ow \<in> set (map i_ipo_id (IPOs d)))
           (Ongoing_Watchlist d)
      \<and> distinct (map pi_investment_id (Past_Investments d))
      \<and> list_all (\<lambda>r. pi_investment_id r < Past_Investments_seq d
                       \<and> pi_user_id r \<in> set (map u_user_id (Users d))
                       \<and> pi_ipo_id r \<in> set (map i_ipo_id (IPOs d)))
           (Past_Investments d))"

subsection \<open>Closed instances\<close>

text \<open>
  The theorems below hold for any pair of bcrypt functions. For their closed instances
  the pair \<open>stand_in\<close> takes the place of the library: its hash is the salt, cut or
  padded to two characters, followed by the password, and it refuses a password of more
  than 72 characters.
\<close>

definition stand_in :: bcrypt where
  "stand_in =
     \<lparr>hashpw = (\<lambda>pw salt. if 72 < length pw then Inl ValueError
                            else Inr (take 2 (salt @ ''..'') @ pw)),
      checkpw = (\<lambda>pw h. if 72 < length pw then Inl ValueError else Inr (drop 2 h = pw))\<rparr>"

text \<open>The store after one user has been created on the empty store.\<close>

definition db_ann :: db where
  "db_ann = snd (create_user stand_in ''s1'' 7 empty_db (Some ''ann'') (Some ''ann@x'')
     (PyStr ''pw'') None None)"

text \<open>An \<^verbatim>\<open>ipo_data\<close> dict without the keys \<^verbatim>\<open>status\<close> and \<^verbatim>\<open>description\<close>.\<close>

definition acme :: ipo_data where
  "acme = \<lparr>k_name = Some (Some ''Acme''), k_symbol = Some (Some ''ACME''),
     k_company_name = Some (Some ''Acme Corp''),
     k_offering_price = Some (Some (Decimal 1250 2)),
     k_total_shares = Some (Some 1000), k_ipo_date = Some (Some 200), k_status = None,
     k_description = None\<rparr>"

text \<open>
  A store with one user and two IPOs, the second with the earlier date, and the stores
  after that user has put the first and then the second on the watchlist.
\<close>

definition bolt :: ipo_data where
  "bolt = \<lparr>k_name = Some (Some ''Bolt''), k_symbol = Some (Some ''BOLT''),
     k_company_name = None, k_offering_price = None,
     k_total_shares = None, k_ipo_date = Some (Some 100), k_status = Some (Some ''open''),
     k_description = None\<rparr>"

definition db_two_ipos :: db where
  "db_two_ipos = snd (store_ipo (snd (store_ipo db_ann 9 acme)) 10 bolt)"

definition acme_row :: ipo where
  "acme_row = \<lparr>i_ipo_id = 1, i_name = ''Acme'', i_symbol = ''ACME'',
     i_company_name = Some ''Acme Corp'', i_offering_price = Some 1250,
     i_total_shares = Some 1000, i_ipo_date = Some 200, i_status = Some ''upcoming'',
     i_description = None, i_created_at = Some 9, i_updated_at = Some 9\<rparr>"

definition bolt_row :: ipo where
  "bolt_row = \<lparr>i_ipo_id = 2, i_name = ''Bolt'', i_symbol = ''BOLT'',
     i_company_name = None, i_offering_price = None,
     i_total_shares = None, i_ipo_date = Some 100, i_status = Some ''open'',
     i_description = None, i_created_at = Some 10, i_updated_at = Some 10\<rparr>"

definition db_watch1 :: db where
  "db_watch1 = snd (add_to_watchlist db_two_ipos 1 1 None)"

definition db_watch2 :: db where
  "db_watch2 = snd (add_to_watchlist db_watch1 1 2 (Some 150))"

text \<open>The store after the user has recorded an investment, omitting the optional arguments.\<close>

definition db_invest :: db where
  "db_invest = snd (add_investment_omitted db_two_ipos 1 1 10 1250)"

text \<open>
  The columns of an investment that no statement of the layer assigns once the row is
  inserted: all but \<^verbatim>\<open>status\<close> and \<^verbatim>\<open>sold_date\<close>.
\<close>

definition kept :: "investment \<Rightarrow> int \<times> int \<times> int \<times> int \<times> decimal" where
  "kept r = (pi_investment_id r, pi_user_id r, pi_ipo_id r, pi_shares_purchased r,
     pi_purchase_price r)"

text \<open>
  A sequence of calls, among them a removal from the watchlist and an insert that the
  store rejects.
\<close>

definition some_calls :: "op list" where
  "some_calls = [Store_ipo 11 bolt, Remove_from_watchlist 1 1,
     Create_user ''s2'' 12 (Some ''ann'') (Some ''ann2@x'') (PyStr ''pw'') None None,
     Add_investment 1 2 5 300 None (Some ''pending''),
     Update_investment_status 1 1 (Some ''sold'') (Some 99), Init_db]"

section \<open>Properties\<close>

subsection \<open>Ordering\<close>

lemma mset_insort_by: "mset (insort_by le x xs) = add_mset x (mset xs)"
  by (induction xs) auto

lemma mset_order_by: "mset (order_by le xs) = mset xs"
  unfolding order_by_def by (induction xs) (auto simp: mset_insort_by)

lemma set_order_by: "set (order_by le xs) = set xs"
  using mset_order_by [of le xs] by (metis set_mset_mset)

lemma length_order_by: "length (order_by le xs) = length xs"
  using mset_order_by [of le xs] by (metis size_mset)

lemma set_insort_by: "set (insort_by le x xs) = insert x (set xs)"
  using mset_insort_by [of le x xs] by (metis set_mset_mset set_mset_add_mset_insert)

lemma sorted_insort_by:
  assumes total: "\<And>a b. le a b \<or> le b a"
    and trans: "\<And>a b c. le a b \<Longrightarrow> le b c \<Longrightarrow> le a c"
  shows "sorted_wrt le xs \<Longrightarrow> sorted_wrt le (insort_by le x xs)"
proof (induction xs)
  case Nil
  then show ?case by simp
next
  case (Cons y ys)
  show ?case
  proof (cases "le x y")
    case True
    have "le x z" if "z \<in> set ys" for z
      using Cons.prems True that trans [of x y z] by auto
    with Cons.prems True show ?thesis by auto
  next
    case False
    then have "le y x" using total by blast
    with Cons False show ?thesis by (auto simp: set_insort_by)
  qed
qed

lemma sorted_order_by:
  assumes total: "\<And>a b. le a b \<or> le b a"
    and trans: "\<And>a b c. le a b \<Longrightarrow> le b c \<Longrightarrow> le a c"
  shows "sorted_wrt le (order_by le xs)"
proof (induction xs)
  case Nil
  show ?case by (simp add: order_by_def)
next
  case (Cons x xs)
  have "sorted_wrt le (insort_by le x (order_by le xs))"
    using total trans Cons.IH by (rule sorted_insort_by)
  then show ?case by (simp add: order_by_def)
qed

lemma asc_total: "asc a b \<or> asc b a"
  by (cases a; cases b) auto

lemma asc_trans: "asc a b \<Longrightarrow> asc b c \<Longrightarrow> asc a c"
  by (cases a; cases b; cases c) auto

lemma desc_total: "desc a b \<or> desc b a"
  by (cases a; cases b) auto

lemma desc_trans: "desc a b \<Longrightarrow> desc b c \<Longrightarrow> desc a c"
  by (cases a; cases b; cases c) auto

lemma sorted_wrt_before:
  assumes "sorted_wrt le xs" and "i < length xs" and "j < length xs"
    and "\<not> le (xs ! j) (xs ! i)" and "i \<noteq> j"
  shows "i < j"
proof (rule ccontr)
  assume "\<not> i < j"
  with assms(5) have "j < i" by arith
  with assms(1,2) have "le (xs ! j) (xs ! i)" by (simp add: sorted_wrt_iff_nth_less)
  with assms(4) show False by simp
qed

subsection \<open>Values that fit their column\<close>

lemma varchar_id: "in_varchar n v \<Longrightarrow> varchar n v = v"
  by (cases v) (simp_all add: in_varchar_def varchar_def)

lemma in_varchar_fits: "in_varchar n v \<Longrightarrow> varchar_fits n v"
  by (cases v) (simp_all add: in_varchar_def varchar_fits_def)

lemma in_varchar_no_nul: "in_varchar n v \<Longrightarrow> \<not> has_nul v"
  by (cases v) (simp_all add: in_varchar_def has_nul_def)


lemma round_2_two_places: "round_2 (Decimal m 2) = m"
  by simp

lemmas column_defs = has_nul_def varchar_fits_def varchar_def int4_fits_def int4_fits_opt_def
  decimal_10_2_fits_def decimal_10_2_def

subsection \<open>Creating a user\<close>

lemma insert_Users_fresh:
  "db_inv d \<Longrightarrow> un \<notin> set (map u_username (Users d)) \<Longrightarrow> em \<notin> set (map u_email (Users d)) \<Longrightarrow>
   in_varchar 255 (Some un) \<Longrightarrow> in_varchar 255 (Some em) \<Longrightarrow> in_varchar 255 (Some h) \<Longrightarrow>
   in_varchar 255 fn \<Longrightarrow> in_varchar 255 ln \<Longrightarrow>
   insert_Users d now (Some un) (Some em) (Some h) fn ln =
     (Inr (Users_seq d),
      d\<lparr>Users_seq := Users_seq d + 1,
        Users := Users d @
          [\<lparr>u_user_id = Users_seq d, u_username = un, u_email = em,
            u_password_hash = h, u_first_name = fn, u_last_name = ln,
            u_created_at = Some now\<rparr>]\<rparr>)"
  by (auto simp: insert_Users_def Let_def db_inv_def list_all_iff varchar_id in_varchar_fits
      in_varchar_no_nul)


lemma create_user_fresh:
  "db_inv d \<Longrightarrow> un \<notin> set (map u_username (Users d)) \<Longrightarrow> em \<notin> set (map u_email (Users d)) \<Longrightarrow>
   in_varchar 255 (Some un) \<Longrightarrow> in_varchar 255 (Some em) \<Longrightarrow>
   in_varchar 255 fn \<Longrightarrow> in_varchar 255 ln \<Longrightarrow>
   hashpw lib p salt = Inr h \<Longrightarrow> in_varchar 255 (Some h) \<Longrightarrow>
   create_user lib salt now d (Some un) (Some em) (PyStr p) fn ln =
     (Inr (Some (Users_seq d)),
      d\<lparr>Users_seq := Users_seq d + 1,
        Users := Users d @
          [\<lparr>u_user_id = Users_seq d, u_username = un, u_email = em,
            u_password_hash = h, u_first_name = fn, u_last_name = ln,
            u_created_at = Some now\<rparr>]\<rparr>)"
  by (simp add: create_user_def insert_Users_fresh)





subsection \<open>The store keeps the constraints of the schema\<close>

text \<open>
  The invariant holds of the store \<^verbatim>\<open>init_db\<close> creates and every call keeps it, so it
  holds of every store the layer can produce.
\<close>

lemma db_inv_empty_db: "db_inv empty_db"
  by (simp add: db_inv_def empty_db_def)

lemma db_inv_init_db: "(case s of None \<Rightarrow> True | Some d \<Rightarrow> db_inv d) \<Longrightarrow> db_inv (init_db s)"
  by (cases s) (simp_all add: db_inv_empty_db)

lemma db_inv_insert_Users:
  "db_inv d \<Longrightarrow> db_inv (snd (insert_Users d now username email ph fn ln))"
  by (auto simp: insert_Users_def Let_def db_inv_def list_all_iff
      split: option.splits)

lemma db_inv_create_user:
  "db_inv d \<Longrightarrow> db_inv (snd (create_user lib salt now d username email password fn ln))"
  using db_inv_insert_Users [of d now username email _ fn ln]
  by (auto simp: create_user_def split: sum.splits prod.splits) (metis snd_conv)+

lemma db_inv_insert_IPOs:
  "db_inv d \<Longrightarrow> db_inv (snd (insert_IPOs d now n s c p t dt st ds))"
  by (auto simp: insert_IPOs_def Let_def db_inv_def list_all_iff split: option.splits)

lemma db_inv_store_ipo: "db_inv d \<Longrightarrow> db_inv (snd (store_ipo d now ipo_data))"
  using db_inv_insert_IPOs [of d now]
  by (auto simp: store_ipo_def split: sum.splits prod.splits) (metis snd_conv)+

lemma db_inv_add_to_watchlist:
  "db_inv d \<Longrightarrow> db_inv (snd (add_to_watchlist d user_id ipo_id expiry_date))"
  by (auto simp: add_to_watchlist_def insert_Ongoing_Watchlist_def Let_def db_inv_def
      list_all_iff)

lemma db_inv_remove_from_watchlist:
  "db_inv d \<Longrightarrow> db_inv (snd (remove_from_watchlist d watchlist_id user_id))"
  by (auto simp: remove_from_watchlist_def db_inv_def list_all_iff distinct_map_filter)

lemma db_inv_add_investment:
  "db_inv d \<Longrightarrow> db_inv (snd (add_investment d user_id ipo_id n price sold_date status))"
  by (auto simp: add_investment_def insert_Past_Investments_def Let_def db_inv_def
      list_all_iff)

lemma update_keeps_investment_id:
  "pi_investment_id \<circ> (\<lambda>r. if P r then r\<lparr>pi_status := s\<rparr> else r) = pi_investment_id"
  "pi_investment_id \<circ> (\<lambda>r. if P r then r\<lparr>pi_status := s, pi_sold_date := t\<rparr> else r)
     = pi_investment_id"
  by (auto simp: fun_eq_iff)

lemma db_inv_update_investment_status:
  "db_inv d \<Longrightarrow>
     db_inv (snd (update_investment_status d investment_id user_id status sold_date))"
  by (cases sold_date)
     (auto simp: update_investment_status_def db_inv_def list_all_iff
        update_keeps_investment_id)

lemma db_inv_call: "db_inv d \<Longrightarrow> db_inv (call lib op d)"
  by (cases op)
     (simp_all add: db_inv_create_user db_inv_store_ipo db_inv_add_to_watchlist
        db_inv_remove_from_watchlist db_inv_add_investment db_inv_update_investment_status
        authenticate_user_def get_ipo_def get_user_watchlist_def get_user_investments_def
        split: option.splits sum.splits)

lemma db_inv_calls: "db_inv d \<Longrightarrow> db_inv (calls lib ops d)"
  unfolding calls_def by (induction ops arbitrary: d) (simp_all add: db_inv_call)

lemma db_inv_reachable: "db_inv (calls lib ops (init_db None))"
  by (simp add: db_inv_calls db_inv_empty_db)

lemma db_ann_rows:
  "db_ann = \<lparr>Users = [\<lparr>u_user_id = 1, u_username = ''ann'', u_email = ''ann@x'',
        u_password_hash = ''s1pw'', u_first_name = None, u_last_name = None,
        u_created_at = Some 7\<rparr>],
      IPOs = [], Ongoing_Watchlist = [], Past_Investments = [],
      Users_seq = 2, IPOs_seq = 1, Ongoing_Watchlist_seq = 1, Past_Investments_seq = 1\<rparr>"
proof -
  have "create_user stand_in ''s1'' 7 empty_db (Some ''ann'') (Some ''ann@x'') (PyStr ''pw'')
      None None
    = (Inr (Some (Users_seq empty_db)),
       empty_db\<lparr>Users_seq := Users_seq empty_db + 1,
         Users := Users empty_db @
          [\<lparr>u_user_id = Users_seq empty_db, u_username = ''ann'', u_email = ''ann@x'',
            u_password_hash = ''s1pw'', u_first_name = None, u_last_name = None,
            u_created_at = Some 7\<rparr>]\<rparr>)"
    by (rule create_user_fresh)
       (simp_all add: db_inv_def in_varchar_def stand_in_def empty_db_def)
  then show ?thesis by (simp add: db_ann_def empty_db_def)
qed

lemma db_inv_db_ann: "db_inv db_ann"
  unfolding db_ann_def by (rule db_inv_create_user) (rule db_inv_empty_db)


subsection \<open>What \<^verbatim>\<open>create_user\<close> catches and what it raises\<close>

lemma create_user_not_str:
  "(\<forall>pw. password \<noteq> PyStr pw) \<Longrightarrow>
     create_user lib salt now d username email password fn ln = (Inl AttributeError, d)"
  by (cases password) (simp_all add: create_user_def)

lemma create_user_hashpw_raises:
  "hashpw lib pw salt = Inl e \<Longrightarrow>
     create_user lib salt now d username email (PyStr pw) fn ln = (Inl e, d)"
  by (simp add: create_user_def)

lemma create_user_except:
  "hashpw lib pw salt = Inr h \<Longrightarrow>
   fst (insert_Users d now username email (Some h) fn ln) = Inl e \<Longrightarrow>
   fst (create_user lib salt now d username email (PyStr pw) fn ln)
     = (if is_IntegrityError e then Inr None else Inl e)"
  by (auto simp: create_user_def split: prod.splits sum.splits)

lemma create_user_None_rows:
  "fst (create_user lib salt now d username email password fn ln) = Inr None \<Longrightarrow>
     snd (create_user lib salt now d username email password fn ln)
       = d\<lparr>Users_seq := Users_seq d + 1\<rparr>"
  by (cases password)
     (auto simp: create_user_def insert_Users_def Let_def
        split: option.splits if_splits sum.splits)

text \<open>
  Claim C2 says that the uniqueness conflict on username or email is the one failure
  \<^verbatim>\<open>create_user\<close> turns into \<^verbatim>\<open>None\<close>, and that a \<^verbatim>\<open>NOT NULL\<close> violation from a
  missing username leaves the function as an error; the comment in the handler
  (\<^verbatim>\<open>Username or email already exists\<close>) says the same of the handler. The code does
  otherwise: with no username (\<^verbatim>\<open>None\<close>), an email no row has and a well-formed
  password, on the empty store, the insert raises \<^verbatim>\<open>NotNullViolation\<close>, which is an
  \<^verbatim>\<open>IntegrityError\<close>, and \<^verbatim>\<open>create_user\<close> returns \<^verbatim>\<open>None\<close> although no
  username and no email exists.
\<close>

theorem create_user_None_username_returns_None:
  "hashpw stand_in ''pw'' ''s1'' = Inr ''s1pw''
   \<and> fst (insert_Users empty_db 7 None (Some ''ann@x'') (Some ''s1pw'') None None)
       = Inl NotNullViolation
   \<and> Users empty_db = []
   \<and> fst (create_user stand_in ''s1'' 7 empty_db None (Some ''ann@x'') (PyStr ''pw'') None None)
       = Inr None"
  by (simp add: create_user_def insert_Users_def empty_db_def stand_in_def has_nul_def
      varchar_fits_def varchar_def)

subsection \<open>Authentication\<close>









subsection \<open>Storing and fetching an IPO\<close>











subsection \<open>Listing a watchlist\<close>

lemma set_join_Ongoing_Watchlist_IPOs:
  "r \<in> set (join_Ongoing_Watchlist_IPOs d user_id) \<longleftrightarrow>
     (\<exists>ow\<in>set (Ongoing_Watchlist d). \<exists>i\<in>set (IPOs d).
        ow_user_id ow = user_id \<and> ow_ipo_id ow = i_ipo_id i
        \<and> r = \<lparr>wl_watchlist_id = ow_watchlist_id ow, wl_expiry_date = ow_expiry_date ow,
                wl_ipo = i\<rparr>)"
  by (auto simp: join_Ongoing_Watchlist_IPOs_def)

lemma filter_by_distinct_key:
  "distinct (map key xs) \<Longrightarrow> k \<in> set (map key xs) \<Longrightarrow>
     \<exists>x. filter (\<lambda>y. k = key y) xs = [x] \<and> key x = k"
proof (induction xs)
  case Nil
  then show ?case by simp
next
  case (Cons a xs)
  show ?case
  proof (cases "k = key a")
    case True
    with Cons.prems have "filter (\<lambda>y. k = key y) xs = []"
      by (auto simp: filter_empty_conv image_iff)
    with True show ?thesis by simp
  next
    case False
    with Cons show ?thesis by auto
  qed
qed

lemma join_watchlist_ids:
  assumes "distinct (map i_ipo_id is)"
    and "list_all (\<lambda>ow. ow_ipo_id ow \<in> set (map i_ipo_id is)) ows"
  shows "map wl_watchlist_id
           (concat (map (\<lambda>ow. map (\<lambda>i. \<lparr>wl_watchlist_id = ow_watchlist_id ow,
                                         wl_expiry_date = ow_expiry_date ow, wl_ipo = i\<rparr>)
                                 (filter (\<lambda>i. ow_ipo_id ow = i_ipo_id i) is)) ows))
         = map ow_watchlist_id ows"
  using assms(2)
proof (induction ows)
  case Nil
  then show ?case by simp
next
  case (Cons ow ows)
  from Cons.prems have "ow_ipo_id ow \<in> set (map i_ipo_id is)" by simp
  from filter_by_distinct_key [OF assms(1) this]
  obtain x where "filter (\<lambda>i. ow_ipo_id ow = i_ipo_id i) is = [x]" by blast
  with Cons show ?case by simp
qed

lemma watchlist_ids_of_join:
  assumes "db_inv d"
  shows "map wl_watchlist_id (join_Ongoing_Watchlist_IPOs d user_id)
         = map ow_watchlist_id (filter (\<lambda>ow. ow_user_id ow = user_id) (Ongoing_Watchlist d))"
  unfolding join_Ongoing_Watchlist_IPOs_def
proof (rule join_watchlist_ids)
  from assms show "distinct (map i_ipo_id (IPOs d))" by (simp add: db_inv_def)
  from assms show "list_all (\<lambda>ow. ow_ipo_id ow \<in> set (map i_ipo_id (IPOs d)))
     (filter (\<lambda>ow. ow_user_id ow = user_id) (Ongoing_Watchlist d))"
    by (auto simp: db_inv_def list_all_iff)
qed

lemma sorted_get_user_watchlist:
  "sorted_wrt (\<lambda>a b. asc (i_ipo_date (wl_ipo a)) (i_ipo_date (wl_ipo b)))
     (fst (get_user_watchlist d user_id))"
  unfolding get_user_watchlist_def fst_conv
proof (rule sorted_order_by)
  show "asc (i_ipo_date (wl_ipo a)) (i_ipo_date (wl_ipo b))
        \<or> asc (i_ipo_date (wl_ipo b)) (i_ipo_date (wl_ipo a))" for a b
    by (rule asc_total)
  show "asc (i_ipo_date (wl_ipo a)) (i_ipo_date (wl_ipo b)) \<Longrightarrow>
        asc (i_ipo_date (wl_ipo b)) (i_ipo_date (wl_ipo c)) \<Longrightarrow>
        asc (i_ipo_date (wl_ipo a)) (i_ipo_date (wl_ipo c))" for a b c
    by (rule asc_trans)
qed

lemma sorted_get_user_investments:
  "sorted_wrt (\<lambda>a b. desc (pi_sold_date (ir_investment a)) (pi_sold_date (ir_investment b)))
     (fst (get_user_investments d user_id))"
  unfolding get_user_investments_def fst_conv
proof (rule sorted_order_by)
  show "desc (pi_sold_date (ir_investment a)) (pi_sold_date (ir_investment b))
        \<or> desc (pi_sold_date (ir_investment b)) (pi_sold_date (ir_investment a))" for a b
    by (rule desc_total)
  show "desc (pi_sold_date (ir_investment a)) (pi_sold_date (ir_investment b)) \<Longrightarrow>
        desc (pi_sold_date (ir_investment b)) (pi_sold_date (ir_investment c)) \<Longrightarrow>
        desc (pi_sold_date (ir_investment a)) (pi_sold_date (ir_investment c))" for a b c
    by (rule desc_trans)
qed

lemma get_user_watchlist_earlier_first:
  assumes "m < length (fst (get_user_watchlist d user_id))"
    and "n < length (fst (get_user_watchlist d user_id))"
    and "i_ipo_date (wl_ipo (fst (get_user_watchlist d user_id) ! m)) = Some D1"
    and "i_ipo_date (wl_ipo (fst (get_user_watchlist d user_id) ! n)) = Some D2"
    and "D1 < D2"
  shows "m < n"
proof (rule sorted_wrt_before [OF sorted_get_user_watchlist assms(1,2)])
  show "\<not> asc (i_ipo_date (wl_ipo (fst (get_user_watchlist d user_id) ! n)))
            (i_ipo_date (wl_ipo (fst (get_user_watchlist d user_id) ! m)))"
    using assms(3,4,5) by simp
  show "m \<noteq> n" using assms(3,4,5) by auto
qed

lemma mset_map_get_user_watchlist:
  "db_inv d \<Longrightarrow>
   mset (map wl_watchlist_id (fst (get_user_watchlist d user_id)))
     = mset (map ow_watchlist_id
          (filter (\<lambda>ow. ow_user_id ow = user_id) (Ongoing_Watchlist d)))"
proof -
  assume inv: "db_inv d"
  have "mset (map wl_watchlist_id (fst (get_user_watchlist d user_id)))
      = image_mset wl_watchlist_id (mset (join_Ongoing_Watchlist_IPOs d user_id))"
    by (simp add: get_user_watchlist_def mset_order_by)
  also have "\<dots> = mset (map wl_watchlist_id (join_Ongoing_Watchlist_IPOs d user_id))"
    by simp
  finally show ?thesis by (simp only: watchlist_ids_of_join [OF inv])
qed

lemma set_get_user_watchlist:
  "set (fst (get_user_watchlist d user_id)) = set (join_Ongoing_Watchlist_IPOs d user_id)"
  by (simp add: get_user_watchlist_def set_order_by)

lemma add_to_watchlist_ok:
  "add_to_watchlist d user_id ipo_id expiry_date = (Inr k, d') \<Longrightarrow>
     k = Ongoing_Watchlist_seq d
     \<and> d' = d\<lparr>Ongoing_Watchlist_seq := k + 1,
             Ongoing_Watchlist := Ongoing_Watchlist d @
               [\<lparr>ow_watchlist_id = k, ow_user_id = user_id, ow_ipo_id = ipo_id,
                  ow_expiry_date = expiry_date\<rparr>]\<rparr>"
  by (auto simp: add_to_watchlist_def insert_Ongoing_Watchlist_def Let_def
      split: if_splits)

lemma get_ipo_Some:
  "get_ipo d ipo_id = (Some i, d') \<Longrightarrow> i \<in> set (IPOs d) \<and> i_ipo_id i = ipo_id"
  by (auto simp: get_ipo_def find_Some_iff in_set_conv_nth)

lemma get_user_watchlist_after_two_adds:
  assumes inv: "db_inv d"
    and add_a: "add_to_watchlist d user_id a ea = (Inr ka, da)"
    and add_b: "add_to_watchlist da user_id b eb = (Inr kb, dab)"
    and ia: "get_ipo d a = (Some ia, d)" and ib: "get_ipo d b = (Some ib, d)"
    and Da: "i_ipo_date ia = Some Da" and Db: "i_ipo_date ib = Some Db"
  shows "\<exists>m n. m < length (fst (get_user_watchlist dab user_id))
           \<and> n < length (fst (get_user_watchlist dab user_id))
           \<and> fst (get_user_watchlist dab user_id) ! m
               = \<lparr>wl_watchlist_id = ka, wl_expiry_date = ea, wl_ipo = ia\<rparr>
           \<and> fst (get_user_watchlist dab user_id) ! n
               = \<lparr>wl_watchlist_id = kb, wl_expiry_date = eb, wl_ipo = ib\<rparr>
           \<and> (Da < Db \<longrightarrow> m < n) \<and> (Db < Da \<longrightarrow> n < m)"
proof -
  let ?rows = "fst (get_user_watchlist dab user_id)"
  let ?ra = "\<lparr>wl_watchlist_id = ka, wl_expiry_date = ea, wl_ipo = ia\<rparr>"
  let ?rb = "\<lparr>wl_watchlist_id = kb, wl_expiry_date = eb, wl_ipo = ib\<rparr>"
  let ?wa = "\<lparr>ow_watchlist_id = ka, ow_user_id = user_id, ow_ipo_id = a,
              ow_expiry_date = ea\<rparr>"
  let ?wb = "\<lparr>ow_watchlist_id = kb, ow_user_id = user_id, ow_ipo_id = b,
              ow_expiry_date = eb\<rparr>"
  from add_to_watchlist_ok [OF add_a]
  have da: "Ongoing_Watchlist da = Ongoing_Watchlist d @ [?wa]" "IPOs da = IPOs d"
    by simp_all
  from add_to_watchlist_ok [OF add_b]
  have dab: "Ongoing_Watchlist dab = Ongoing_Watchlist da @ [?wb]" "IPOs dab = IPOs da"
    by simp_all
  from get_ipo_Some [OF ia] have ia': "ia \<in> set (IPOs dab)" "i_ipo_id ia = a"
    using da dab by simp_all
  from get_ipo_Some [OF ib] have ib': "ib \<in> set (IPOs dab)" "i_ipo_id ib = b"
    using da dab by simp_all
  have wa: "?wa \<in> set (Ongoing_Watchlist dab)" and wb: "?wb \<in> set (Ongoing_Watchlist dab)"
    using da dab by simp_all
  have "?ra \<in> set (join_Ongoing_Watchlist_IPOs dab user_id)"
    unfolding set_join_Ongoing_Watchlist_IPOs
    using wa ia' by (intro bexI [of _ ?wa] bexI [of _ ia]) simp_all
  then have "?ra \<in> set ?rows" by (simp add: set_get_user_watchlist)
  then obtain m where m: "m < length ?rows" "?rows ! m = ?ra"
    by (auto simp: in_set_conv_nth)
  have "?rb \<in> set (join_Ongoing_Watchlist_IPOs dab user_id)"
    unfolding set_join_Ongoing_Watchlist_IPOs
    using wb ib' by (intro bexI [of _ ?wb] bexI [of _ ib]) simp_all
  then have "?rb \<in> set ?rows" by (simp add: set_get_user_watchlist)
  then obtain n where n: "n < length ?rows" "?rows ! n = ?rb"
    by (auto simp: in_set_conv_nth)
  have 1: "m < n" if "Da < Db"
    using get_user_watchlist_earlier_first [of m dab user_id n Da Db] m n Da Db that
    by simp
  have 2: "n < m" if "Db < Da"
    using get_user_watchlist_earlier_first [of n dab user_id m Db Da] m n Da Db that
    by simp
  from m n 1 2 show ?thesis by blast
qed

text \<open>
  Claim C5. \<^verbatim>\<open>get_user_watchlist\<close> leaves the store as it is and returns exactly the
  rows the join gives for the user: one row for each watchlist row of the user and each IPO
  with its \<^verbatim>\<open>ipo_id\<close>, holding the watchlist id, the expiry date and the IPO. On a
  store that satisfies the constraints of the schema each watchlist row of the user appears
  exactly once. The rows are in ascending order of the IPO date with null dates last, so a
  row with date \<open>D1\<close> stands before a row with date \<open>D2\<close> whenever \<open>D1 < D2\<close>. In
  particular, after two entries have been added for the user, for IPOs with different
  dates, the listing holds both entries, the one with the earlier date first, whichever
  was added first.
\<close>

theorem get_user_watchlist_joined_and_ordered:
  "snd (get_user_watchlist d user_id) = d
   \<and> (\<forall>r. r \<in> set (fst (get_user_watchlist d user_id)) \<longleftrightarrow>
          (\<exists>ow\<in>set (Ongoing_Watchlist d). \<exists>i\<in>set (IPOs d).
             ow_user_id ow = user_id \<and> ow_ipo_id ow = i_ipo_id i
             \<and> r = \<lparr>wl_watchlist_id = ow_watchlist_id ow,
                     wl_expiry_date = ow_expiry_date ow, wl_ipo = i\<rparr>))
   \<and> (db_inv d \<longrightarrow>
        mset (map wl_watchlist_id (fst (get_user_watchlist d user_id)))
          = mset (map ow_watchlist_id
               (filter (\<lambda>ow. ow_user_id ow = user_id) (Ongoing_Watchlist d))))
   \<and> sorted_wrt (\<lambda>r1 r2. asc (i_ipo_date (wl_ipo r1)) (i_ipo_date (wl_ipo r2)))
        (fst (get_user_watchlist d user_id))
   \<and> (\<forall>m n D1 D2.
          m < length (fst (get_user_watchlist d user_id))
          \<and> n < length (fst (get_user_watchlist d user_id))
          \<and> i_ipo_date (wl_ipo (fst (get_user_watchlist d user_id) ! m)) = Some D1
          \<and> i_ipo_date (wl_ipo (fst (get_user_watchlist d user_id) ! n)) = Some D2
          \<and> D1 < D2 \<longrightarrow> m < n)
   \<and> (\<forall>a ea ka da b eb kb dab ia ib Da Db.
          db_inv d
          \<and> add_to_watchlist d user_id a ea = (Inr ka, da)
          \<and> add_to_watchlist da user_id b eb = (Inr kb, dab)
          \<and> get_ipo d a = (Some ia, d) \<and> get_ipo d b = (Some ib, d)
          \<and> i_ipo_date ia = Some Da \<and> i_ipo_date ib = Some Db \<longrightarrow>
          (\<exists>m n. m < length (fst (get_user_watchlist dab user_id))
             \<and> n < length (fst (get_user_watchlist dab user_id))
             \<and> fst (get_user_watchlist dab user_id) ! m
                 = \<lparr>wl_watchlist_id = ka, wl_expiry_date = ea, wl_ipo = ia\<rparr>
             \<and> fst (get_user_watchlist dab user_id) ! n
                 = \<lparr>wl_watchlist_id = kb, wl_expiry_date = eb, wl_ipo = ib\<rparr>
             \<and> (Da < Db \<longrightarrow> m < n) \<and> (Db < Da \<longrightarrow> n < m)))"
proof (intro conjI allI impI)
  show "snd (get_user_watchlist d user_id) = d" by (simp add: get_user_watchlist_def)
  show "r \<in> set (fst (get_user_watchlist d user_id)) \<longleftrightarrow>
          (\<exists>ow\<in>set (Ongoing_Watchlist d). \<exists>i\<in>set (IPOs d).
             ow_user_id ow = user_id \<and> ow_ipo_id ow = i_ipo_id i
             \<and> r = \<lparr>wl_watchlist_id = ow_watchlist_id ow,
                     wl_expiry_date = ow_expiry_date ow, wl_ipo = i\<rparr>)" for r
    unfolding set_get_user_watchlist by (rule set_join_Ongoing_Watchlist_IPOs)
  show "mset (map wl_watchlist_id (fst (get_user_watchlist d user_id)))
          = mset (map ow_watchlist_id
               (filter (\<lambda>ow. ow_user_id ow = user_id) (Ongoing_Watchlist d)))"
    if "db_inv d" using that by (rule mset_map_get_user_watchlist)
  show "sorted_wrt (\<lambda>r1 r2. asc (i_ipo_date (wl_ipo r1)) (i_ipo_date (wl_ipo r2)))
        (fst (get_user_watchlist d user_id))"
    by (rule sorted_get_user_watchlist)
  show "m < n"
    if "m < length (fst (get_user_watchlist d user_id))
          \<and> n < length (fst (get_user_watchlist d user_id))
          \<and> i_ipo_date (wl_ipo (fst (get_user_watchlist d user_id) ! m)) = Some D1
          \<and> i_ipo_date (wl_ipo (fst (get_user_watchlist d user_id) ! n)) = Some D2
          \<and> D1 < D2" for m n D1 D2
    using that get_user_watchlist_earlier_first [of m d user_id n D1 D2] by blast
  show "\<exists>m n. m < length (fst (get_user_watchlist dab user_id))
             \<and> n < length (fst (get_user_watchlist dab user_id))
             \<and> fst (get_user_watchlist dab user_id) ! m
                 = \<lparr>wl_watchlist_id = ka, wl_expiry_date = ea, wl_ipo = ia\<rparr>
             \<and> fst (get_user_watchlist dab user_id) ! n
                 = \<lparr>wl_watchlist_id = kb, wl_expiry_date = eb, wl_ipo = ib\<rparr>
             \<and> (Da < Db \<longrightarrow> m < n) \<and> (Db < Da \<longrightarrow> n < m)"
    if "db_inv d
          \<and> add_to_watchlist d user_id a ea = (Inr ka, da)
          \<and> add_to_watchlist da user_id b eb = (Inr kb, dab)
          \<and> get_ipo d a = (Some ia, d) \<and> get_ipo d b = (Some ib, d)
          \<and> i_ipo_date ia = Some Da \<and> i_ipo_date ib = Some Db"
    for a ea ka da b eb kb dab ia ib Da Db
    using that get_user_watchlist_after_two_adds [of d user_id a ea ka da b eb kb dab ia ib Da Db]
    by blast
qed

lemma db_two_ipos_rows:
  "db_two_ipos = db_ann\<lparr>IPOs := [acme_row, bolt_row], IPOs_seq := 3\<rparr>"
  by (simp add: db_two_ipos_def store_ipo_def insert_IPOs_def db_ann_rows acme_def bolt_def
      acme_row_def bolt_row_def column_defs)

lemma db_inv_db_two_ipos: "db_inv db_two_ipos"
  unfolding db_two_ipos_def by (intro db_inv_store_ipo db_inv_db_ann)

lemma add_watch1:
  "add_to_watchlist db_two_ipos 1 1 None = (Inr 1, db_watch1)"
  by (simp add: db_watch1_def add_to_watchlist_def insert_Ongoing_Watchlist_def
      db_two_ipos_rows db_ann_rows acme_row_def bolt_row_def
      column_defs)

lemma db_watch1_rows:
  "db_watch1 = db_two_ipos\<lparr>Ongoing_Watchlist :=
       [\<lparr>ow_watchlist_id = 1, ow_user_id = 1, ow_ipo_id = 1, ow_expiry_date = None\<rparr>],
     Ongoing_Watchlist_seq := 2\<rparr>"
  by (simp add: db_watch1_def add_to_watchlist_def insert_Ongoing_Watchlist_def
      db_two_ipos_rows db_ann_rows acme_row_def bolt_row_def
      column_defs)

lemma add_watch2:
  "add_to_watchlist db_watch1 1 2 (Some 150) = (Inr 2, db_watch2)"
  by (simp add: db_watch2_def add_to_watchlist_def insert_Ongoing_Watchlist_def
      db_watch1_rows db_two_ipos_rows db_ann_rows acme_row_def bolt_row_def
      column_defs)

lemma get_ipo_db_two_ipos:
  "get_ipo db_two_ipos 1 = (Some acme_row, db_two_ipos)"
  "get_ipo db_two_ipos 2 = (Some bolt_row, db_two_ipos)"
  by (simp_all add: get_ipo_def db_two_ipos_rows acme_row_def bolt_row_def)

theorem get_user_watchlist_joined_and_ordered_witness:
  "db_inv db_two_ipos
   \<and> add_to_watchlist db_two_ipos 1 1 None = (Inr 1, db_watch1)
   \<and> add_to_watchlist db_watch1 1 2 (Some 150) = (Inr 2, db_watch2)
   \<and> get_ipo db_two_ipos 1 = (Some acme_row, db_two_ipos)
   \<and> get_ipo db_two_ipos 2 = (Some bolt_row, db_two_ipos)
   \<and> i_ipo_date acme_row = Some 200 \<and> i_ipo_date bolt_row = Some 100
   \<and> (\<exists>m n. m < length (fst (get_user_watchlist db_watch2 1))
         \<and> n < length (fst (get_user_watchlist db_watch2 1))
         \<and> fst (get_user_watchlist db_watch2 1) ! m
             = \<lparr>wl_watchlist_id = 1, wl_expiry_date = None, wl_ipo = acme_row\<rparr>
         \<and> fst (get_user_watchlist db_watch2 1) ! n
             = \<lparr>wl_watchlist_id = 2, wl_expiry_date = Some 150, wl_ipo = bolt_row\<rparr>
         \<and> n < m)"
proof -
  have dates: "i_ipo_date acme_row = Some 200" "i_ipo_date bolt_row = Some 100"
    by (simp_all add: acme_row_def bolt_row_def)
  have hyps: "db_inv db_two_ipos
      \<and> add_to_watchlist db_two_ipos 1 1 None = (Inr 1, db_watch1)
      \<and> add_to_watchlist db_watch1 1 2 (Some 150) = (Inr 2, db_watch2)
      \<and> get_ipo db_two_ipos 1 = (Some acme_row, db_two_ipos)
      \<and> get_ipo db_two_ipos 2 = (Some bolt_row, db_two_ipos)
      \<and> i_ipo_date acme_row = Some 200 \<and> i_ipo_date bolt_row = Some 100"
    using db_inv_db_two_ipos add_watch1 add_watch2 get_ipo_db_two_ipos dates by simp
  from get_user_watchlist_joined_and_ordered [of db_two_ipos 1]
  have "\<forall>a ea ka da b eb kb dab ia ib Da Db.
          db_inv db_two_ipos
          \<and> add_to_watchlist db_two_ipos 1 a ea = (Inr ka, da)
          \<and> add_to_watchlist da 1 b eb = (Inr kb, dab)
          \<and> get_ipo db_two_ipos a = (Some ia, db_two_ipos)
          \<and> get_ipo db_two_ipos b = (Some ib, db_two_ipos)
          \<and> i_ipo_date ia = Some Da \<and> i_ipo_date ib = Some Db \<longrightarrow>
          (\<exists>m n. m < length (fst (get_user_watchlist dab 1))
             \<and> n < length (fst (get_user_watchlist dab 1))
             \<and> fst (get_user_watchlist dab 1) ! m
                 = \<lparr>wl_watchlist_id = ka, wl_expiry_date = ea, wl_ipo = ia\<rparr>
             \<and> fst (get_user_watchlist dab 1) ! n
                 = \<lparr>wl_watchlist_id = kb, wl_expiry_date = eb, wl_ipo = ib\<rparr>
             \<and> (Da < Db \<longrightarrow> m < n) \<and> (Db < Da \<longrightarrow> n < m))"
    by (elim conjE)
  from this [rule_format, OF hyps]
  have "\<exists>m n. m < length (fst (get_user_watchlist db_watch2 1))
         \<and> n < length (fst (get_user_watchlist db_watch2 1))
         \<and> fst (get_user_watchlist db_watch2 1) ! m
             = \<lparr>wl_watchlist_id = 1, wl_expiry_date = None, wl_ipo = acme_row\<rparr>
         \<and> fst (get_user_watchlist db_watch2 1) ! n
             = \<lparr>wl_watchlist_id = 2, wl_expiry_date = Some 150, wl_ipo = bolt_row\<rparr>
         \<and> n < m"
    by simp
  with hyps show ?thesis by simp
qed

subsection \<open>Removing from a watchlist\<close>

lemma db_watch2_rows:
  "db_watch2 = db_two_ipos\<lparr>Ongoing_Watchlist :=
       [\<lparr>ow_watchlist_id = 1, ow_user_id = 1, ow_ipo_id = 1, ow_expiry_date = None\<rparr>,
        \<lparr>ow_watchlist_id = 2, ow_user_id = 1, ow_ipo_id = 2, ow_expiry_date = Some 150\<rparr>],
     Ongoing_Watchlist_seq := 3\<rparr>"
  by (simp add: db_watch2_def add_to_watchlist_def insert_Ongoing_Watchlist_def
      db_watch1_rows db_two_ipos_rows db_ann_rows acme_row_def bolt_row_def
      column_defs)

lemma db_inv_db_watch2: "db_inv db_watch2"
  unfolding db_watch2_def db_watch1_def
  by (intro db_inv_add_to_watchlist db_inv_db_two_ipos)

lemma db_invest_rows:
  "db_invest = db_two_ipos\<lparr>Past_Investments :=
       [\<lparr>pi_investment_id = 1, pi_user_id = 1, pi_ipo_id = 1, pi_shares_purchased = 10,
         pi_purchase_price = 1250, pi_sold_date = None, pi_status = Some ''pending''\<rparr>],
     Past_Investments_seq := 2\<rparr>"
  by (simp add: db_invest_def add_investment_omitted_def add_investment_def
      insert_Past_Investments_def db_two_ipos_rows db_ann_rows acme_row_def bolt_row_def
      column_defs)


lemma db_update_same:
  "d\<lparr>Ongoing_Watchlist := Ongoing_Watchlist d\<rparr> = d"
  "d\<lparr>Past_Investments := Past_Investments d\<rparr> = d"
  by simp_all

lemma filter_other_key:
  assumes "distinct (map key xs)" and "x \<in> set xs" and "key x = k" and "\<not> Q x"
  shows "filter (\<lambda>y. \<not> (key y = k \<and> Q y)) xs = xs"
proof -
  have "\<forall>y\<in>set xs. \<not> (key y = k \<and> Q y)"
  proof
    fix y assume y: "y \<in> set xs"
    show "\<not> (key y = k \<and> Q y)"
    proof
      assume "key y = k \<and> Q y"
      with assms(3) have "key y = key x" by simp
      with assms(1,2) y have "y = x" by (meson distinct_map inj_onD)
      with \<open>key y = k \<and> Q y\<close> assms(4) show False by simp
    qed
  qed
  then show ?thesis by (simp add: filter_id_conv)
qed

text \<open>
  Claim C6. \<^verbatim>\<open>remove_from_watchlist\<close> returns \<^verbatim>\<open>True\<close> in every case and
  touches no table but \<^verbatim>\<open>Ongoing_Watchlist\<close>. The rows it leaves there are the rows
  that were there, less those whose \<^verbatim>\<open>watchlist_id\<close> and \<^verbatim>\<open>user_id\<close> both equal
  the arguments. After the call the listing of that user has no entry with that id. On a
  store that satisfies the constraints of the schema, a call with the id of an entry that
  belongs to another user leaves the whole store as it was, with the entry in it; a call
  with an id no row has leaves the store as it was too.
\<close>

theorem remove_from_watchlist_scoped:
  "fst (remove_from_watchlist d watchlist_id user_id) = True
   \<and> Users (snd (remove_from_watchlist d watchlist_id user_id)) = Users d
   \<and> IPOs (snd (remove_from_watchlist d watchlist_id user_id)) = IPOs d
   \<and> Past_Investments (snd (remove_from_watchlist d watchlist_id user_id))
       = Past_Investments d
   \<and> (\<forall>ow. ow \<in> set (Ongoing_Watchlist (snd (remove_from_watchlist d watchlist_id user_id)))
         \<longleftrightarrow> ow \<in> set (Ongoing_Watchlist d)
             \<and> \<not> (ow_watchlist_id ow = watchlist_id \<and> ow_user_id ow = user_id))
   \<and> watchlist_id \<notin> set (map wl_watchlist_id
         (fst (get_user_watchlist (snd (remove_from_watchlist d watchlist_id user_id)) user_id)))
   \<and> (db_inv d \<longrightarrow>
        (\<forall>ow\<in>set (Ongoing_Watchlist d).
           ow_watchlist_id ow = watchlist_id \<and> ow_user_id ow \<noteq> user_id \<longrightarrow>
             snd (remove_from_watchlist d watchlist_id user_id) = d
             \<and> ow \<in> set (Ongoing_Watchlist (snd (remove_from_watchlist d watchlist_id user_id)))))
   \<and> (watchlist_id \<notin> set (map ow_watchlist_id (Ongoing_Watchlist d)) \<longrightarrow>
        snd (remove_from_watchlist d watchlist_id user_id) = d)"
proof (intro conjI allI impI ballI)
  let ?d1 = "snd (remove_from_watchlist d watchlist_id user_id)"
  show "fst (remove_from_watchlist d watchlist_id user_id) = True"
    by (simp add: remove_from_watchlist_def)
  show "Users ?d1 = Users d" by (simp add: remove_from_watchlist_def)
  show "IPOs ?d1 = IPOs d" by (simp add: remove_from_watchlist_def)
  show "Past_Investments ?d1 = Past_Investments d" by (simp add: remove_from_watchlist_def)
  show "ow \<in> set (Ongoing_Watchlist ?d1)
         \<longleftrightarrow> ow \<in> set (Ongoing_Watchlist d)
             \<and> \<not> (ow_watchlist_id ow = watchlist_id \<and> ow_user_id ow = user_id)" for ow
    by (simp add: remove_from_watchlist_def)
  show "watchlist_id \<notin> set (map wl_watchlist_id (fst (get_user_watchlist ?d1 user_id)))"
    by (auto simp: set_get_user_watchlist set_join_Ongoing_Watchlist_IPOs
        remove_from_watchlist_def)
  show "?d1 = d"
    if "db_inv d" "ow \<in> set (Ongoing_Watchlist d)"
      "ow_watchlist_id ow = watchlist_id \<and> ow_user_id ow \<noteq> user_id" for ow
  proof -
    from that have "filter (\<lambda>y. \<not> (ow_watchlist_id y = watchlist_id \<and> ow_user_id y = user_id))
        (Ongoing_Watchlist d) = Ongoing_Watchlist d"
      by (intro filter_other_key [where x = ow]) (simp_all add: db_inv_def)
    then show ?thesis by (simp add: remove_from_watchlist_def)
  qed
  then show "ow \<in> set (Ongoing_Watchlist ?d1)"
    if "db_inv d" "ow \<in> set (Ongoing_Watchlist d)"
      "ow_watchlist_id ow = watchlist_id \<and> ow_user_id ow \<noteq> user_id" for ow
    using that by simp
  show "?d1 = d" if "watchlist_id \<notin> set (map ow_watchlist_id (Ongoing_Watchlist d))"
  proof -
    from that have "filter (\<lambda>y. \<not> (ow_watchlist_id y = watchlist_id \<and> ow_user_id y = user_id))
        (Ongoing_Watchlist d) = Ongoing_Watchlist d"
      by (auto simp: filter_id_conv)
    then show ?thesis by (simp add: remove_from_watchlist_def)
  qed
qed


theorem remove_from_watchlist_scoped_witness:
  "db_inv db_watch2
   \<and> \<lparr>ow_watchlist_id = 1, ow_user_id = 1, ow_ipo_id = 1, ow_expiry_date = None\<rparr>
       \<in> set (Ongoing_Watchlist db_watch2)
   \<and> fst (remove_from_watchlist db_watch2 1 1) = True
   \<and> 1 \<notin> set (map wl_watchlist_id
         (fst (get_user_watchlist (snd (remove_from_watchlist db_watch2 1 1)) 1)))
   \<and> \<lparr>ow_watchlist_id = 2, ow_user_id = 1, ow_ipo_id = 2, ow_expiry_date = Some 150\<rparr>
       \<in> set (Ongoing_Watchlist (snd (remove_from_watchlist db_watch2 1 1)))
   \<and> fst (remove_from_watchlist db_watch2 1 2) = True
   \<and> snd (remove_from_watchlist db_watch2 1 2) = db_watch2"
proof -
  let ?w1 = "\<lparr>ow_watchlist_id = 1, ow_user_id = 1, ow_ipo_id = 1, ow_expiry_date = None\<rparr>"
  let ?w2 = "\<lparr>ow_watchlist_id = 2, ow_user_id = 1, ow_ipo_id = 2,
               ow_expiry_date = Some 150\<rparr>"
  have w1: "?w1 \<in> set (Ongoing_Watchlist db_watch2)"
    and w2: "?w2 \<in> set (Ongoing_Watchlist db_watch2)"
    by (simp_all add: db_watch2_rows)
  note owner = remove_from_watchlist_scoped [of db_watch2 1 1]
  note other = remove_from_watchlist_scoped [of db_watch2 1 2]
  from owner have 1: "fst (remove_from_watchlist db_watch2 1 1) = True"
    and 2: "1 \<notin> set (map wl_watchlist_id
         (fst (get_user_watchlist (snd (remove_from_watchlist db_watch2 1 1)) 1)))"
    by blast+
  from owner have "?w2 \<in> set (Ongoing_Watchlist (snd (remove_from_watchlist db_watch2 1 1)))
      \<longleftrightarrow> ?w2 \<in> set (Ongoing_Watchlist db_watch2)
             \<and> \<not> (ow_watchlist_id ?w2 = 1 \<and> ow_user_id ?w2 = 1)"
    by blast
  with w2 have 3: "?w2 \<in> set (Ongoing_Watchlist (snd (remove_from_watchlist db_watch2 1 1)))"
    by simp
  from other have 4: "fst (remove_from_watchlist db_watch2 1 2) = True" by blast
  from other db_inv_db_watch2
  have "\<forall>ow\<in>set (Ongoing_Watchlist db_watch2).
           ow_watchlist_id ow = 1 \<and> ow_user_id ow \<noteq> 2 \<longrightarrow>
             snd (remove_from_watchlist db_watch2 1 2) = db_watch2"
    by blast
  from this [rule_format, OF w1]
  have 5: "snd (remove_from_watchlist db_watch2 1 2) = db_watch2" by simp
  from db_inv_db_watch2 w1 1 2 3 4 5 show ?thesis by blast
qed


subsection \<open>Updating an investment\<close>

lemma map_update_same:
  "(\<And>x. x \<in> set xs \<Longrightarrow> \<not> P x) \<Longrightarrow> map (\<lambda>r. if P r then f r else r) xs = xs"
  by (induction xs) auto

lemma update_investment_status_ok:
  "in_varchar 20 status \<Longrightarrow>
   update_investment_status d investment_id user_id status sold_date =
     (Inr True,
      d\<lparr>Past_Investments :=
          map (\<lambda>r. if pi_investment_id r = investment_id \<and> pi_user_id r = user_id
                   then (case sold_date of
                           None \<Rightarrow> r\<lparr>pi_status := status\<rparr>
                         | Some sd \<Rightarrow> r\<lparr>pi_status := status, pi_sold_date := Some sd\<rparr>)
                   else r)
            (Past_Investments d)\<rparr>)"
  by (cases sold_date)
     (simp_all add: update_investment_status_def varchar_id in_varchar_fits in_varchar_no_nul)

lemma update_investment_status_raises:
  "fst (update_investment_status d investment_id user_id status sold_date) \<noteq> Inr True \<Longrightarrow>
   snd (update_investment_status d investment_id user_id status sold_date) = d"
  by (auto simp: update_investment_status_def split: if_splits option.splits)

lemma update_investment_status_tables:
  "Users (snd (update_investment_status d investment_id user_id status sold_date)) = Users d"
  "IPOs (snd (update_investment_status d investment_id user_id status sold_date)) = IPOs d"
  "Ongoing_Watchlist (snd (update_investment_status d investment_id user_id status sold_date))
     = Ongoing_Watchlist d"
  "length (Past_Investments
      (snd (update_investment_status d investment_id user_id status sold_date)))
     = length (Past_Investments d)"
  by (simp_all add: update_investment_status_def split: option.splits)

lemma update_investment_status_other_row:
  "k < length (Past_Investments d) \<Longrightarrow>
   \<not> (pi_investment_id (Past_Investments d ! k) = investment_id
       \<and> pi_user_id (Past_Investments d ! k) = user_id) \<Longrightarrow>
   Past_Investments (snd (update_investment_status d investment_id user_id status sold_date)) ! k
     = Past_Investments d ! k"
  by (cases sold_date) (auto simp: update_investment_status_def)

lemma update_investment_status_no_match:
  assumes "\<forall>r\<in>set (Past_Investments d).
          \<not> (pi_investment_id r = investment_id \<and> pi_user_id r = user_id)"
  shows "snd (update_investment_status d investment_id user_id status sold_date) = d"
proof -
  have "map (\<lambda>r. if pi_investment_id r = investment_id \<and> pi_user_id r = user_id
                  then f r else r) (Past_Investments d) = Past_Investments d" for f
    using assms by (intro map_update_same) blast
  then show ?thesis by (simp add: update_investment_status_def split: option.splits)
qed

text \<open>
  Claim C7. \<^verbatim>\<open>update_investment_status\<close> touches no table but
  \<^verbatim>\<open>Past_Investments\<close>, keeps the number and the positions of its rows, and leaves
  every row as it was that does not match both \<^verbatim>\<open>investment_id\<close> and
  \<^verbatim>\<open>user_id\<close>; when no row matches both (a non-owning user, an unknown id) the store is
  as it was. With a status the column can hold (null, or at most 20 characters without
  NUL) the call returns \<^verbatim>\<open>True\<close> whether or not a row matched, and a row that matches
  both becomes itself with the new status when \<^verbatim>\<open>sold_date\<close> is omitted, and itself
  with the new status and the new sold date when it is supplied. A call that does not
  return \<^verbatim>\<open>True\<close> leaves the store as it was.
\<close>

theorem update_investment_status_frame:
  "Users (snd (update_investment_status d investment_id user_id status sold_date)) = Users d
   \<and> IPOs (snd (update_investment_status d investment_id user_id status sold_date)) = IPOs d
   \<and> Ongoing_Watchlist (snd (update_investment_status d investment_id user_id status sold_date))
       = Ongoing_Watchlist d
   \<and> length (Past_Investments
        (snd (update_investment_status d investment_id user_id status sold_date)))
       = length (Past_Investments d)
   \<and> (\<forall>k<length (Past_Investments d).
         \<not> (pi_investment_id (Past_Investments d ! k) = investment_id
             \<and> pi_user_id (Past_Investments d ! k) = user_id) \<longrightarrow>
         Past_Investments
           (snd (update_investment_status d investment_id user_id status sold_date)) ! k
         = Past_Investments d ! k)
   \<and> ((\<forall>r\<in>set (Past_Investments d).
          \<not> (pi_investment_id r = investment_id \<and> pi_user_id r = user_id)) \<longrightarrow>
        snd (update_investment_status d investment_id user_id status sold_date) = d)
   \<and> (fst (update_investment_status d investment_id user_id status sold_date) \<noteq> Inr True \<longrightarrow>
        snd (update_investment_status d investment_id user_id status sold_date) = d)
   \<and> (in_varchar 20 status \<longrightarrow>
        fst (update_investment_status d investment_id user_id status sold_date) = Inr True
        \<and> (\<forall>k<length (Past_Investments d).
              pi_investment_id (Past_Investments d ! k) = investment_id
              \<and> pi_user_id (Past_Investments d ! k) = user_id \<longrightarrow>
                (sold_date = None \<longrightarrow>
                   Past_Investments
                     (snd (update_investment_status d investment_id user_id status sold_date))
                       ! k
                   = (Past_Investments d ! k)\<lparr>pi_status := status\<rparr>)
                \<and> (\<forall>sd. sold_date = Some sd \<longrightarrow>
                   Past_Investments
                     (snd (update_investment_status d investment_id user_id status sold_date))
                       ! k
                   = (Past_Investments d ! k)\<lparr>pi_status := status,
                       pi_sold_date := Some sd\<rparr>)))"
proof (intro conjI allI impI)
  let ?u = "update_investment_status d investment_id user_id status sold_date"
  show "Users (snd ?u) = Users d" "IPOs (snd ?u) = IPOs d"
    "Ongoing_Watchlist (snd ?u) = Ongoing_Watchlist d"
    "length (Past_Investments (snd ?u)) = length (Past_Investments d)"
    by (rule update_investment_status_tables)+
  show "Past_Investments (snd ?u) ! k = Past_Investments d ! k"
    if "k < length (Past_Investments d)"
      "\<not> (pi_investment_id (Past_Investments d ! k) = investment_id
             \<and> pi_user_id (Past_Investments d ! k) = user_id)" for k
    using that by (rule update_investment_status_other_row)
  show "snd ?u = d"
    if "\<forall>r\<in>set (Past_Investments d).
          \<not> (pi_investment_id r = investment_id \<and> pi_user_id r = user_id)"
    using that by (rule update_investment_status_no_match)
  show "snd ?u = d" if "fst ?u \<noteq> Inr True"
    using that by (rule update_investment_status_raises)
  show "fst ?u = Inr True" if "in_varchar 20 status"
    using update_investment_status_ok [OF that, of d investment_id user_id sold_date]
    by simp
  show "Past_Investments (snd ?u) ! k = (Past_Investments d ! k)\<lparr>pi_status := status\<rparr>"
    if "in_varchar 20 status" "k < length (Past_Investments d)"
      "pi_investment_id (Past_Investments d ! k) = investment_id
              \<and> pi_user_id (Past_Investments d ! k) = user_id"
      "sold_date = None" for k
    using update_investment_status_ok [OF that(1), of d investment_id user_id sold_date]
      that(2,3,4)
    by simp
  show "Past_Investments (snd ?u) ! k
      = (Past_Investments d ! k)\<lparr>pi_status := status, pi_sold_date := Some sd\<rparr>"
    if "in_varchar 20 status" "k < length (Past_Investments d)"
      "pi_investment_id (Past_Investments d ! k) = investment_id
              \<and> pi_user_id (Past_Investments d ! k) = user_id"
      "sold_date = Some sd" for k sd
    using update_investment_status_ok [OF that(1), of d investment_id user_id sold_date]
      that(2,3,4)
    by simp
qed

theorem update_investment_status_frame_witness:
  "0 < length (Past_Investments db_invest)
   \<and> pi_investment_id (Past_Investments db_invest ! 0) = 1
   \<and> pi_user_id (Past_Investments db_invest ! 0) = 1
   \<and> in_varchar 20 (Some ''sold'')
   \<and> fst (update_investment_status db_invest 1 1 (Some ''sold'') (Some 99)) = Inr True
   \<and> Past_Investments (snd (update_investment_status db_invest 1 1 (Some ''sold'') (Some 99))) ! 0
       = \<lparr>pi_investment_id = 1, pi_user_id = 1, pi_ipo_id = 1, pi_shares_purchased = 10,
          pi_purchase_price = 1250, pi_sold_date = Some 99, pi_status = Some ''sold''\<rparr>
   \<and> Past_Investments (snd (update_investment_status db_invest 1 1 (Some ''sold'') None)) ! 0
       = \<lparr>pi_investment_id = 1, pi_user_id = 1, pi_ipo_id = 1, pi_shares_purchased = 10,
          pi_purchase_price = 1250, pi_sold_date = None, pi_status = Some ''sold''\<rparr>
   \<and> fst (update_investment_status db_invest 1 2 (Some ''sold'') (Some 99)) = Inr True
   \<and> snd (update_investment_status db_invest 1 2 (Some ''sold'') (Some 99)) = db_invest"
proof -
  have row: "Past_Investments db_invest ! 0
      = \<lparr>pi_investment_id = 1, pi_user_id = 1, pi_ipo_id = 1, pi_shares_purchased = 10,
         pi_purchase_price = 1250, pi_sold_date = None, pi_status = Some ''pending''\<rparr>"
    and len: "0 < length (Past_Investments db_invest)"
    and rows: "set (Past_Investments db_invest)
      = {\<lparr>pi_investment_id = 1, pi_user_id = 1, pi_ipo_id = 1, pi_shares_purchased = 10,
         pi_purchase_price = 1250, pi_sold_date = None, pi_status = Some ''pending''\<rparr>}"
    by (simp_all add: db_invest_rows)
  have fits: "in_varchar 20 (Some ''sold'')" by (simp add: in_varchar_def)
  note both = update_investment_status_frame [of db_invest 1 1 "Some ''sold''" "Some 99"]
  note only = update_investment_status_frame [of db_invest 1 1 "Some ''sold''" None]
  note other = update_investment_status_frame [of db_invest 1 2 "Some ''sold''" "Some 99"]
  from both fits
  have 1: "fst (update_investment_status db_invest 1 1 (Some ''sold'') (Some 99)) = Inr True"
    by blast
  from both fits have "\<forall>k<length (Past_Investments db_invest).
        pi_investment_id (Past_Investments db_invest ! k) = 1
           \<and> pi_user_id (Past_Investments db_invest ! k) = 1 \<longrightarrow>
             (\<forall>sd. Some 99 = Some sd \<longrightarrow>
                Past_Investments
                  (snd (update_investment_status db_invest 1 1 (Some ''sold'') (Some 99))) ! k
                = (Past_Investments db_invest ! k)\<lparr>pi_status := Some ''sold'',
                    pi_sold_date := Some sd\<rparr>)"
    by blast
  from this [rule_format, OF len, of 99]
  have 2: "Past_Investments
      (snd (update_investment_status db_invest 1 1 (Some ''sold'') (Some 99))) ! 0
       = \<lparr>pi_investment_id = 1, pi_user_id = 1, pi_ipo_id = 1, pi_shares_purchased = 10,
          pi_purchase_price = 1250, pi_sold_date = Some 99, pi_status = Some ''sold''\<rparr>"
    by (simp add: row)
  from only fits have "\<forall>k<length (Past_Investments db_invest).
        pi_investment_id (Past_Investments db_invest ! k) = 1
           \<and> pi_user_id (Past_Investments db_invest ! k) = 1 \<longrightarrow>
             (None = (None :: timestamp option) \<longrightarrow>
                Past_Investments
                  (snd (update_investment_status db_invest 1 1 (Some ''sold'') None)) ! k
                = (Past_Investments db_invest ! k)\<lparr>pi_status := Some ''sold''\<rparr>)"
    by blast
  from this [rule_format, OF len]
  have 3: "Past_Investments (snd (update_investment_status db_invest 1 1 (Some ''sold'') None)) ! 0
       = \<lparr>pi_investment_id = 1, pi_user_id = 1, pi_ipo_id = 1, pi_shares_purchased = 10,
          pi_purchase_price = 1250, pi_sold_date = None, pi_status = Some ''sold''\<rparr>"
    by (simp add: row)
  from other fits
  have 4: "fst (update_investment_status db_invest 1 2 (Some ''sold'') (Some 99)) = Inr True"
    by blast
  from other have "(\<forall>r\<in>set (Past_Investments db_invest).
          \<not> (pi_investment_id r = 1 \<and> pi_user_id r = 2)) \<longrightarrow>
        snd (update_investment_status db_invest 1 2 (Some ''sold'') (Some 99)) = db_invest"
    by blast
  then have 5: "snd (update_investment_status db_invest 1 2 (Some ''sold'') (Some 99)) = db_invest"
    by (simp add: rows)
  from len row fits 1 2 3 4 5 show ?thesis by simp
qed

subsection \<open>Adding an investment without a sold date\<close>

text \<open>
  Claim C8 fails on the code. \<^verbatim>\<open>add_investment\<close> lists \<^verbatim>\<open>sold_date\<close> among the
  columns of its insert and binds the argument to it, so with the argument omitted the
  column receives an explicit null and the \<^verbatim>\<open>DEFAULT CURRENT_TIMESTAMP\<close> that
  \<^verbatim>\<open>init_db\<close> declares for it never applies: the stored \<^verbatim>\<open>sold_date\<close> is null,
  not the time of the insert. (The status, whose default the signature repeats, is
  \<^verbatim>\<open>'pending'\<close>.)
\<close>

theorem add_investment_omitted_sold_date_is_null:
  "fst (add_investment_omitted db_two_ipos 1 1 10 1250) = Inr 1
   \<and> Past_Investments (snd (add_investment_omitted db_two_ipos 1 1 10 1250))
       = [\<lparr>pi_investment_id = 1, pi_user_id = 1, pi_ipo_id = 1, pi_shares_purchased = 10,
           pi_purchase_price = 1250, pi_sold_date = None, pi_status = Some ''pending''\<rparr>]"
  by (simp add: add_investment_omitted_def add_investment_def
      insert_Past_Investments_def db_two_ipos_rows db_ann_rows acme_row_def bolt_row_def
      column_defs)

subsection \<open>What a sequence of calls can change\<close>

lemma insert_Users_tables:
  "(\<exists>us. Users (snd (insert_Users d now un em ph fn ln)) = Users d @ us)
   \<and> IPOs (snd (insert_Users d now un em ph fn ln)) = IPOs d
   \<and> Ongoing_Watchlist (snd (insert_Users d now un em ph fn ln)) = Ongoing_Watchlist d
   \<and> Past_Investments (snd (insert_Users d now un em ph fn ln)) = Past_Investments d"
  by (auto simp: insert_Users_def Let_def split: option.splits)

lemma create_user_tables:
  "(\<exists>us. Users (snd (create_user lib salt now d un em pw fn ln)) = Users d @ us)
   \<and> IPOs (snd (create_user lib salt now d un em pw fn ln)) = IPOs d
   \<and> Ongoing_Watchlist (snd (create_user lib salt now d un em pw fn ln))
       = Ongoing_Watchlist d
   \<and> Past_Investments (snd (create_user lib salt now d un em pw fn ln)) = Past_Investments d"
proof (cases "encode pw")
  case (Inl e)
  then show ?thesis by (simp add: create_user_def)
next
  case (Inr p)
  show ?thesis
  proof (cases "hashpw lib p salt")
    case (Inl e)
    with Inr show ?thesis by (simp add: create_user_def)
  next
    case h: (Inr ph)
    have "snd (create_user lib salt now d un em pw fn ln)
        = snd (insert_Users d now un em (Some ph) fn ln)"
      using Inr h by (simp add: create_user_def split: prod.splits sum.splits)
    then show ?thesis using insert_Users_tables [of d now un em "Some ph" fn ln] by simp
  qed
qed

lemma insert_IPOs_tables:
  "Users (snd (insert_IPOs d now n s c p t dt st ds)) = Users d
   \<and> (\<exists>is. IPOs (snd (insert_IPOs d now n s c p t dt st ds)) = IPOs d @ is)
   \<and> Ongoing_Watchlist (snd (insert_IPOs d now n s c p t dt st ds)) = Ongoing_Watchlist d
   \<and> Past_Investments (snd (insert_IPOs d now n s c p t dt st ds)) = Past_Investments d"
  by (auto simp: insert_IPOs_def Let_def split: option.splits)

lemma store_ipo_tables:
  "Users (snd (store_ipo d now ipo_data)) = Users d
   \<and> (\<exists>is. IPOs (snd (store_ipo d now ipo_data)) = IPOs d @ is)
   \<and> Ongoing_Watchlist (snd (store_ipo d now ipo_data)) = Ongoing_Watchlist d
   \<and> Past_Investments (snd (store_ipo d now ipo_data)) = Past_Investments d"
proof (cases "subscript (k_name ipo_data)")
  case (Inl e)
  then show ?thesis by (simp add: store_ipo_def)
next
  case n: (Inr name)
  show ?thesis
  proof (cases "subscript (k_symbol ipo_data)")
    case (Inl e)
    with n show ?thesis by (simp add: store_ipo_def)
  next
    case s: (Inr symbol)
    have "snd (store_ipo d now ipo_data)
        = snd (insert_IPOs d now name symbol (get (k_company_name ipo_data))
                 (get (k_offering_price ipo_data)) (get (k_total_shares ipo_data))
                 (get (k_ipo_date ipo_data)) (get_default (k_status ipo_data) ''upcoming'')
                 (get (k_description ipo_data)))"
      using n s by (simp add: store_ipo_def split: prod.splits sum.splits)
    then show ?thesis
      using insert_IPOs_tables [of d now name symbol "get (k_company_name ipo_data)"
          "get (k_offering_price ipo_data)" "get (k_total_shares ipo_data)"
          "get (k_ipo_date ipo_data)" "get_default (k_status ipo_data) ''upcoming''"
          "get (k_description ipo_data)"]
      by simp
  qed
qed

lemma add_to_watchlist_tables:
  "Users (snd (add_to_watchlist d u i e)) = Users d
   \<and> IPOs (snd (add_to_watchlist d u i e)) = IPOs d
   \<and> (\<exists>ws. Ongoing_Watchlist (snd (add_to_watchlist d u i e)) = Ongoing_Watchlist d @ ws)
   \<and> Past_Investments (snd (add_to_watchlist d u i e)) = Past_Investments d"
  by (auto simp: add_to_watchlist_def insert_Ongoing_Watchlist_def Let_def)

lemma add_investment_tables:
  "Users (snd (add_investment d u i n p sd st)) = Users d
   \<and> IPOs (snd (add_investment d u i n p sd st)) = IPOs d
   \<and> Ongoing_Watchlist (snd (add_investment d u i n p sd st)) = Ongoing_Watchlist d
   \<and> (\<exists>rs. Past_Investments (snd (add_investment d u i n p sd st))
         = Past_Investments d @ rs)"
  by (auto simp: add_investment_def insert_Past_Investments_def Let_def)

lemma remove_from_watchlist_tables:
  "Users (snd (remove_from_watchlist d w u)) = Users d
   \<and> IPOs (snd (remove_from_watchlist d w u)) = IPOs d
   \<and> Past_Investments (snd (remove_from_watchlist d w u)) = Past_Investments d"
  by (simp add: remove_from_watchlist_def)

lemma kept_update:
  "kept \<circ> (\<lambda>r. if P r then r\<lparr>pi_status := s\<rparr> else r) = kept"
  "kept \<circ> (\<lambda>r. if P r then r\<lparr>pi_status := s, pi_sold_date := t\<rparr> else r) = kept"
  by (auto simp: fun_eq_iff kept_def)

lemma update_investment_status_kept:
  "map kept (Past_Investments (snd (update_investment_status d i u st sd)))
     = map kept (Past_Investments d)"
  by (cases sd) (simp_all add: update_investment_status_def kept_update)

lemma reads_keep_store:
  "snd (authenticate_user lib d un pw) = d" "snd (get_ipo d i) = d"
  "snd (get_user_watchlist d u) = d" "snd (get_user_investments d u) = d"
  by (simp_all add: authenticate_user_def get_ipo_def get_user_watchlist_def
      get_user_investments_def split: option.splits sum.splits)

lemma call_Users: "\<exists>us. Users (call lib op d) = Users d @ us"
proof (cases op)
  case (Create_user salt now un em pw fn ln)
  then show ?thesis using create_user_tables [of lib salt now d un em pw fn ln] by simp
qed (simp_all add: reads_keep_store store_ipo_tables add_to_watchlist_tables
      add_investment_tables remove_from_watchlist_tables update_investment_status_tables)

lemma call_IPOs: "\<exists>is. IPOs (call lib op d) = IPOs d @ is"
proof (cases op)
  case (Store_ipo now ipo_data)
  then show ?thesis using store_ipo_tables [of d now ipo_data] by simp
qed (simp_all add: reads_keep_store create_user_tables add_to_watchlist_tables
      add_investment_tables remove_from_watchlist_tables update_investment_status_tables)

lemma call_Past_Investments:
  "\<exists>rs. map kept (Past_Investments (call lib op d)) = map kept (Past_Investments d) @ rs"
proof (cases op)
  case (Add_investment u i n p sd st)
  from add_investment_tables [of d u i n p sd st]
  obtain rs where "Past_Investments (snd (add_investment d u i n p sd st))
      = Past_Investments d @ rs" by blast
  with Add_investment show ?thesis by simp
qed (simp_all add: reads_keep_store create_user_tables store_ipo_tables
      add_to_watchlist_tables remove_from_watchlist_tables update_investment_status_kept)

lemma call_Ongoing_Watchlist:
  "ow \<in> set (Ongoing_Watchlist d) \<Longrightarrow> ow \<notin> set (Ongoing_Watchlist (call lib op d)) \<Longrightarrow>
     op = Remove_from_watchlist (ow_watchlist_id ow) (ow_user_id ow)"
proof (cases op)
  case (Add_to_watchlist u i e)
  assume a: "ow \<in> set (Ongoing_Watchlist d)"
    "ow \<notin> set (Ongoing_Watchlist (call lib op d))"
  from add_to_watchlist_tables [of d u i e]
  obtain ws where "Ongoing_Watchlist (snd (add_to_watchlist d u i e))
      = Ongoing_Watchlist d @ ws" by blast
  with Add_to_watchlist a show ?thesis by simp
next
  case (Remove_from_watchlist w u)
  assume "ow \<in> set (Ongoing_Watchlist d)"
    "ow \<notin> set (Ongoing_Watchlist (call lib op d))"
  with Remove_from_watchlist show ?thesis by (simp add: remove_from_watchlist_def)
qed (simp_all add: reads_keep_store create_user_tables store_ipo_tables
      add_investment_tables update_investment_status_tables)

lemma calls_Cons: "calls lib (op # ops) d = calls lib ops (call lib op d)"
  by (simp add: calls_def)

lemma calls_Users: "\<exists>us. Users (calls lib ops d) = Users d @ us"
proof (induction ops arbitrary: d)
  case Nil
  show ?case by (simp add: calls_def)
next
  case (Cons op ops)
  from call_Users [of lib op d] obtain us where 1: "Users (call lib op d) = Users d @ us" ..
  from Cons.IH [of "call lib op d"] obtain vs
    where 2: "Users (calls lib ops (call lib op d)) = Users (call lib op d) @ vs" ..
  from 1 2 show ?case by (simp add: calls_Cons)
qed

lemma calls_IPOs: "\<exists>is. IPOs (calls lib ops d) = IPOs d @ is"
proof (induction ops arbitrary: d)
  case Nil
  show ?case by (simp add: calls_def)
next
  case (Cons op ops)
  from call_IPOs [of lib op d] obtain us where 1: "IPOs (call lib op d) = IPOs d @ us" ..
  from Cons.IH [of "call lib op d"] obtain vs
    where 2: "IPOs (calls lib ops (call lib op d)) = IPOs (call lib op d) @ vs" ..
  from 1 2 show ?case by (simp add: calls_Cons)
qed

lemma calls_Past_Investments:
  "\<exists>rs. map kept (Past_Investments (calls lib ops d)) = map kept (Past_Investments d) @ rs"
proof (induction ops arbitrary: d)
  case Nil
  show ?case by (simp add: calls_def)
next
  case (Cons op ops)
  from call_Past_Investments [of lib op d] obtain us
    where 1: "map kept (Past_Investments (call lib op d)) = map kept (Past_Investments d) @ us" ..
  from Cons.IH [of "call lib op d"] obtain vs
    where 2: "map kept (Past_Investments (calls lib ops (call lib op d)))
      = map kept (Past_Investments (call lib op d)) @ vs" ..
  from 1 2 show ?case by (simp add: calls_Cons)
qed

lemma calls_Ongoing_Watchlist:
  "ow \<in> set (Ongoing_Watchlist d) \<Longrightarrow> ow \<notin> set (Ongoing_Watchlist (calls lib ops d)) \<Longrightarrow>
     Remove_from_watchlist (ow_watchlist_id ow) (ow_user_id ow) \<in> set ops"
proof (induction ops arbitrary: d)
  case Nil
  then show ?case by (simp add: calls_def)
next
  case (Cons op ops)
  show ?case
  proof (cases "ow \<in> set (Ongoing_Watchlist (call lib op d))")
    case True
    with Cons.IH [of "call lib op d"] Cons.prems(2) show ?thesis
      by (simp add: calls_Cons)
  next
    case False
    with Cons.prems(1) have "op = Remove_from_watchlist (ow_watchlist_id ow) (ow_user_id ow)"
      by (rule call_Ongoing_Watchlist)
    then show ?thesis by simp
  qed
qed

text \<open>
  Claim C9. Whatever sequence of calls runs on a store, the rows of \<^verbatim>\<open>Users\<close> and
  of \<^verbatim>\<open>IPOs\<close> that were there are still there afterwards, in place and equal in every
  field (\<^verbatim>\<open>updated_at\<close> included); new rows only follow them. Every investment is
  still there in place, equal in every column but \<^verbatim>\<open>status\<close> and \<^verbatim>\<open>sold_date\<close>.
  A watchlist row that is gone afterwards was removed by a \<^verbatim>\<open>remove_from_watchlist\<close>
  call of the sequence whose arguments are the id of the row and the id of its user.
\<close>

theorem users_and_ipos_immutable_no_deletes:
  "(\<exists>us. Users (calls lib ops d) = Users d @ us)
   \<and> (\<exists>is. IPOs (calls lib ops d) = IPOs d @ is)
   \<and> (\<exists>rs. map kept (Past_Investments (calls lib ops d))
          = map kept (Past_Investments d) @ rs)
   \<and> (\<forall>ow. ow \<in> set (Ongoing_Watchlist d)
          \<and> ow \<notin> set (Ongoing_Watchlist (calls lib ops d)) \<longrightarrow>
          Remove_from_watchlist (ow_watchlist_id ow) (ow_user_id ow) \<in> set ops)"
  using calls_Users [of lib ops d] calls_IPOs [of lib ops d]
    calls_Past_Investments [of lib ops d] calls_Ongoing_Watchlist [of _ d lib ops]
  by blast

lemma calls_some_calls:
  "Ongoing_Watchlist (calls stand_in some_calls db_watch2)
     = [\<lparr>ow_watchlist_id = 2, ow_user_id = 1, ow_ipo_id = 2, ow_expiry_date = Some 150\<rparr>]"
  by (simp add: some_calls_def calls_def store_ipo_def insert_IPOs_def
      remove_from_watchlist_def create_user_def insert_Users_def add_investment_def
      insert_Past_Investments_def update_investment_status_def
      db_watch2_rows db_two_ipos_rows db_ann_rows acme_row_def bolt_row_def bolt_def
      stand_in_def column_defs)

theorem users_and_ipos_immutable_no_deletes_witness:
  "\<lparr>ow_watchlist_id = 1, ow_user_id = 1, ow_ipo_id = 1, ow_expiry_date = None\<rparr>
       \<in> set (Ongoing_Watchlist db_watch2)
   \<and> \<lparr>ow_watchlist_id = 1, ow_user_id = 1, ow_ipo_id = 1, ow_expiry_date = None\<rparr>
       \<notin> set (Ongoing_Watchlist (calls stand_in some_calls db_watch2))
   \<and> Remove_from_watchlist 1 1 \<in> set some_calls
   \<and> (\<exists>us. Users (calls stand_in some_calls db_watch2) = Users db_watch2 @ us)
   \<and> (\<exists>is. IPOs (calls stand_in some_calls db_watch2) = IPOs db_watch2 @ is)"
proof -
  let ?w1 = "\<lparr>ow_watchlist_id = 1, ow_user_id = 1, ow_ipo_id = 1, ow_expiry_date = None\<rparr>"
  have before: "?w1 \<in> set (Ongoing_Watchlist db_watch2)" by (simp add: db_watch2_rows)
  have after: "?w1 \<notin> set (Ongoing_Watchlist (calls stand_in some_calls db_watch2))"
    by (simp add: calls_some_calls)
  note inst = users_and_ipos_immutable_no_deletes [of stand_in some_calls db_watch2]
  from inst before after
  have "Remove_from_watchlist (ow_watchlist_id ?w1) (ow_user_id ?w1) \<in> set some_calls"
    by blast
  then have 1: "Remove_from_watchlist 1 1 \<in> set some_calls" by simp
  from inst have 2: "\<exists>us. Users (calls stand_in some_calls db_watch2) = Users db_watch2 @ us"
    and 3: "\<exists>is. IPOs (calls stand_in some_calls db_watch2) = IPOs db_watch2 @ is"
    by blast+
  from before after 1 2 3 show ?thesis by blast
qed


end
